theory Spec2Isabelle
  imports Complex_Main
begin

section \<open>The FLIP fluid simulator: state of \<open>FluidSimulation\<close>\<close>

text \<open>
  The development embeds the parts of \<open>src/engine/fluidsimulation.cpp\<close> that decide the
  specified properties. Conventions:
  \<^item> a C++ \<open>double\<close> or \<open>float\<close> is a \<open>real\<close>: the arithmetic is exact, there is no
    rounding, no infinity and no NaN; \<open>fmin\<close>, \<open>fmax\<close>, \<open>std::max\<close> are \<open>min\<close> and \<open>max\<close>;
  \<^item> a C++ \<open>int\<close> is an \<open>int\<close>; the counters of the simulator stay far from the limits of
    32 bits;
  \<^item> a member function that can throw returns the pair of \<open>Some e\<close> for the exception
    (\<open>None\<close> for a normal return) and the state of the object at that moment, so that what
    has been written before a throw is visible;
  \<^item> the members of \<open>FluidSimulation\<close> keep their names without the leading underscore;
  \<^item> the particle store, the grids, the obstacles and the sources, whose classes are not
    part of the engine file, are one opaque component \<open>world\<close> of the state, read through
    the observers of an environment record;
  \<^item> wall-clock timing (\<open>StopWatch\<close>, \<open>TimingData\<close>, the performance score) and the time
    stamps of the log are left out.
\<close>

datatype error = RuntimeError | DomainError | OutOfRange

datatype log_entry =
    LogSetter string real
  | LogSubstep int int real
  | LogString string

record solver_status =
  solverSuccess :: bool
  solverIterations :: int
  solverError :: real

record frame_data =
  frame :: int
  substeps :: int
  deltaTime :: real
  fd_pressureSolverSuccess :: bool
  fd_pressureSolverError :: real
  fd_pressureSolverIterations :: int
  fd_viscositySolverSuccess :: bool
  fd_viscositySolverError :: real
  fd_viscositySolverIterations :: int

record 'w sim =
  isSimulationInitialized :: bool
  isZeroLengthDeltaTime :: bool
  isCurrentFrameFinished :: bool
  isSkippedFrame :: bool
  isLastFrameTimeStep :: bool
  currentFrame :: int
  currentFrameDeltaTime :: real
  currentFrameDeltaTimeRemaining :: real
  currentFrameTimeStep :: real
  currentFrameTimeStepNumber :: int
  minFrameTimeSteps :: int
  maxFrameTimeSteps :: int
  CFLConditionNumber :: int
  dx :: real
  isSurfaceTensionEnabled :: bool
  surfaceTensionConstant :: real
  surfaceTensionConditionNumber :: real
  isFluidParticleDebugOutputEnabled :: bool
  isInternalObstacleMeshOutputEnabled :: bool
  isForceFieldDebugOutputEnabled :: bool
  outputData_isInitialized :: bool
  outputData_frameData :: frame_data
  outputData_logfileData :: "log_entry list"
  pressureSolver :: solver_status
  pressureSolverStatus :: string
  viscositySolver :: solver_status
  ratioPICFLIP :: real
  ratioPICAPIC :: real
  density :: real
  randomSeed :: int
  logfile :: "log_entry list"
  world :: 'w

subsection \<open>Validating setters\<close>

text \<open>
  Every validating setter has the same shape: the range check comes first and throws
  \<open>std::domain_error\<close>; only then is the call logged and the member assigned.
\<close>

definition getPICFLIPRatio :: "'w sim \<Rightarrow> real" where
  "getPICFLIPRatio s = ratioPICFLIP s"

definition setPICFLIPRatio :: "real \<Rightarrow> 'w sim \<Rightarrow> error option \<times> 'w sim" where
  "setPICFLIPRatio r s =
     (if r < 0 \<or> r > 1 then (Some DomainError, s)
      else (None, s\<lparr>logfile := logfile s @ [LogSetter ''setPICFLIPRatio'' r],
                  ratioPICFLIP := r\<rparr>))"

definition getPICAPICRatio :: "'w sim \<Rightarrow> real" where
  "getPICAPICRatio s = ratioPICAPIC s"

definition setPICAPICRatio :: "real \<Rightarrow> 'w sim \<Rightarrow> error option \<times> 'w sim" where
  "setPICAPICRatio r s =
     (if r < 0 \<or> r > 1 then (Some DomainError, s)
      else (None, s\<lparr>logfile := logfile s @ [LogSetter ''setPICAPICRatio'' r],
                  ratioPICAPIC := r\<rparr>))"

definition getDensity :: "'w sim \<Rightarrow> real" where
  "getDensity s = density s"

definition setDensity :: "real \<Rightarrow> 'w sim \<Rightarrow> error option \<times> 'w sim" where
  "setDensity p s =
     (if p \<le> 0 then (Some DomainError, s)
      else (None, s\<lparr>logfile := logfile s @ [LogSetter ''setDensity'' p],
                  density := p\<rparr>))"

definition getCFLConditionNumber :: "'w sim \<Rightarrow> int" where
  "getCFLConditionNumber s = CFLConditionNumber s"

definition setCFLConditionNumber :: "int \<Rightarrow> 'w sim \<Rightarrow> error option \<times> 'w sim" where
  "setCFLConditionNumber n s =
     (if n < 1 then (Some DomainError, s)
      else (None, s\<lparr>logfile := logfile s @ [LogSetter ''setCFLConditionNumber'' (of_int n)],
                  CFLConditionNumber := n\<rparr>))"

definition getSurfaceTensionConditionNumber :: "'w sim \<Rightarrow> real" where
  "getSurfaceTensionConditionNumber s = surfaceTensionConditionNumber s"

definition setSurfaceTensionConditionNumber :: "real \<Rightarrow> 'w sim \<Rightarrow> error option \<times> 'w sim" where
  "setSurfaceTensionConditionNumber n s =
     (if n \<le> 0 then (Some DomainError, s)
      else (None, s\<lparr>logfile := logfile s @ [LogSetter ''setSurfaceTensionConditionNumber'' n],
                  surfaceTensionConditionNumber := n\<rparr>))"

definition getMinTimeStepsPerFrame :: "'w sim \<Rightarrow> int" where
  "getMinTimeStepsPerFrame s = minFrameTimeSteps s"

definition setMinTimeStepsPerFrame :: "int \<Rightarrow> 'w sim \<Rightarrow> error option \<times> 'w sim" where
  "setMinTimeStepsPerFrame n s =
     (if n < 1 then (Some DomainError, s)
      else (None, s\<lparr>logfile := logfile s @ [LogSetter ''setMinTimeStepsPerFrame'' (of_int n)],
                  minFrameTimeSteps := n\<rparr>))"

definition getMaxTimeStepsPerFrame :: "'w sim \<Rightarrow> int" where
  "getMaxTimeStepsPerFrame s = maxFrameTimeSteps s"

definition setMaxTimeStepsPerFrame :: "int \<Rightarrow> 'w sim \<Rightarrow> error option \<times> 'w sim" where
  "setMaxTimeStepsPerFrame n s =
     (if n < 1 then (Some DomainError, s)
      else (None, s\<lparr>logfile := logfile s @ [LogSetter ''setMaxTimeStepsPerFrame'' (of_int n)],
                  maxFrameTimeSteps := n\<rparr>))"

subsection \<open>Collaborators outside the engine file\<close>

text \<open>
  The particle store, the MAC grid, the pressure solver and the scene objects are classes of
  their own. The engine reads and changes them through the operations below, which are
  parameters of the model. \<open>psolver_solve\<close> stands for \<open>PressureSolver::solve\<close> together
  with \<open>getIterations\<close>, \<open>getError\<close> and \<open>getSolverStatus\<close>.
\<close>

datatype velocity_grid = MACVelocity | VelocityAttributeGrid

record solve_outcome =
  solveSuccess :: bool
  solveIterations :: int
  solveError :: real
  solveStatus :: string

record 'w env =
  isFluidInSimulation :: "'w \<Rightarrow> bool"
  isFluidGeneratingThisFrame :: "'w \<Rightarrow> bool"
  predictMaximumMarkerParticleSpeed :: "real \<Rightarrow> 'w \<Rightarrow> real"
  getMaximumMarkerParticleSpeed :: "'w \<Rightarrow> real"
  getMaximumObstacleSpeed :: "int \<Rightarrow> real \<Rightarrow> 'w \<Rightarrow> real"
  updateWeightGrid :: "'w \<Rightarrow> 'w"
  psolver_solve :: "real \<Rightarrow> 'w \<Rightarrow> solve_outcome"
  applySolutionToVelocityField :: "real \<Rightarrow> 'w \<Rightarrow> 'w"
  clearVelocityField :: "'w \<Rightarrow> 'w"
  velocityAdvector_advect :: "'w \<Rightarrow> 'w"
  extrapolateVelocityField :: "velocity_grid \<Rightarrow> int \<Rightarrow> 'w \<Rightarrow> 'w"

subsection \<open>Velocity extrapolation\<close>

text \<open>
  \<open>_extrapolateFluidVelocities(MACGrid, validVelocities)\<close> computes the number of layers
  from the CFL number and hands it to \<open>MACVelocityField::extrapolateVelocityField\<close>.
\<close>

definition extrapolateFluidVelocities :: "'w env \<Rightarrow> velocity_grid \<Rightarrow> 'w sim \<Rightarrow> 'w sim" where
  "extrapolateFluidVelocities env MACGrid s =
     (let numLayers = \<lceil>sqrt 3 * of_int (CFLConditionNumber s)\<rceil> + 3
      in s\<lparr>world := extrapolateVelocityField env MACGrid numLayers (world s)\<rparr>)"


subsection \<open>Pressure solve\<close>

text \<open>
  \<open>_pressureSolve(dt)\<close>. The three status members are reset at the top of every call,
  then the solver runs when there is fluid, and its result is merged into the status.
\<close>

definition pressureSolve :: "'w env \<Rightarrow> real \<Rightarrow> 'w sim \<Rightarrow> 'w sim" where
  "pressureSolve env dt s0 =
     (let s1 = s0\<lparr>pressureSolver :=
                  \<lparr>solverSuccess = True, solverIterations = 0, solverError = 0\<rparr>\<rparr>
      in if isFluidInSimulation env (world s1) then
           (let w1 = updateWeightGrid env (world s1);
                r = psolver_solve env dt w1;
                success = solveSuccess r;
                w2 = (if success then applySolutionToVelocityField env dt w1 else w1);
                s2 = s1\<lparr>world := w2, pressureSolverStatus := solveStatus r\<rparr>;
                s3 = (if currentFrameTimeStepNumber s2 = 0 then
                        s2\<lparr>pressureSolver :=
                             \<lparr>solverSuccess = success,
                              solverIterations = solveIterations r,
                              solverError = solveError r\<rparr>\<rparr>
                      else
                        (let numIterations = solveIterations r;
                             err = solveError r
                         in if solverSuccess (pressureSolver s2) \<and>
                               (\<not> success \<or> numIterations > solverIterations (pressureSolver s2))
                            then s2\<lparr>pressureSolver :=
                                      \<lparr>solverSuccess = success,
                                       solverIterations = numIterations,
                                       solverError = err\<rparr>\<rparr>
                            else s2))
            in extrapolateFluidVelocities env MACVelocity s3)
         else s1)"

text \<open>
  The reduction that the comment in \<open>_pressureSolve\<close> asks for ("Solver status should
  capture the first failure state. Otherwise, it should capture the substep with max
  iterations"), as a function of the status recorded so far and the new result. It is
  what the merge above computes when the recorded status is not reset in between.
\<close>

definition spec_reduce_status :: "solver_status \<Rightarrow> solve_outcome \<Rightarrow> solver_status" where
  "spec_reduce_status st r =
     (if solverSuccess st \<and> (\<not> solveSuccess r \<or> solveIterations r > solverIterations st)
      then \<lparr>solverSuccess = solveSuccess r, solverIterations = solveIterations r,
            solverError = solveError r\<rparr>
      else st)"

subsection \<open>Time stepping\<close>

text \<open>
  \<open>_calculateNextTimeStep(dt)\<close>: the CFL step from the largest speed, the surface
  tension restriction, and the rounding of the step to a whole fraction of the frame.
\<close>

definition calculateNextTimeStep :: "'w env \<Rightarrow> real \<Rightarrow> 'w sim \<Rightarrow> real" where
  "calculateNextTimeStep env dt s =
     (let maxu0 = (if currentFrame s = 0 \<and> currentFrameTimeStepNumber s = 0
                   then predictMaximumMarkerParticleSpeed env dt (world s)
                   else getMaximumMarkerParticleSpeed env (world s));
          fluid = (isFluidInSimulation env (world s) \<or> isFluidGeneratingThisFrame env (world s));
          maxu = (if fluid then max (getMaximumObstacleSpeed env (currentFrame s) dt (world s)) maxu0
                  else maxu0);
          eps = 1 / 1000000;
          timeStep0 = of_int (CFLConditionNumber s) * dx s / (maxu + eps);
          timeStep1 = (if isSurfaceTensionEnabled s \<and> fluid then
                         (let restriction = sqrt (dx s * dx s * dx s)
                                            * sqrt (1 / (surfaceTensionConstant s + eps))
                          in min timeStep0 (surfaceTensionConditionNumber s * restriction))
                       else timeStep0);
          estimatedNumFrameSubsteps = max \<lceil>dt / timeStep1\<rceil> 1
      in dt / of_int estimatedNumFrameSubsteps)"



text \<open>
  \<open>_stepFluid(dt)\<close> seeds the C random generator and, unless the frame is skipped, runs
  the stages of the pipeline. The stages are the parameter \<open>stages\<close>; they change the
  particles and grids and record the solver status, and they do not write the members that
  \<open>update\<close> uses to control the frame. Their log lines are not part of \<open>logfile\<close>.
\<close>

definition stepFluid :: "(real \<Rightarrow> 'w sim \<Rightarrow> 'w sim) \<Rightarrow> real \<Rightarrow> 'w sim \<Rightarrow> 'w sim" where
  "stepFluid stages dt s0 =
     (let s1 = s0\<lparr>randomSeed := currentFrame s0 + currentFrameTimeStepNumber s0\<rparr>
      in if \<not> isSkippedFrame s1 then
           (let s' = stages dt s1
            in s1\<lparr>world := world s',
                  pressureSolver := pressureSolver s',
                  pressureSolverStatus := pressureSolverStatus s',
                  viscositySolver := viscositySolver s',
                  randomSeed := randomSeed s'\<rparr>)
         else s1)"

text \<open>
  One pass through the body of the \<open>do ... while\<close> loop of \<open>update\<close>;
  \<open>chooseTimeStep\<close> is its first part, which assigns \<open>_currentFrameTimeStep\<close>. The log line
  of the substep carries the frame, the number of the substep and its length. The count of
  fluid cells and the step statistics that follow \<open>_stepFluid\<close> are not modelled.
\<close>

definition chooseTimeStep :: "'w env \<Rightarrow> real \<Rightarrow> real \<Rightarrow> 'w sim \<Rightarrow> real" where
  "chooseTimeStep env dt substepTime s0 =
     (let remaining = currentFrameDeltaTimeRemaining s0;
          ts0 = min (calculateNextTimeStep env dt s0) remaining;
          timeCompleted = currentFrameDeltaTime s0 - remaining;
          stepLimit = of_int (currentFrameTimeStepNumber s0 + 1) * substepTime;
          ts1 = (if timeCompleted + ts0 > stepLimit then min substepTime remaining else ts0)
      in if currentFrameTimeStepNumber s0 = maxFrameTimeSteps s0 - 1 then remaining else ts1)"

definition substep :: "'w env \<Rightarrow> (real \<Rightarrow> 'w sim \<Rightarrow> 'w sim) \<Rightarrow> real \<Rightarrow> real \<Rightarrow> 'w sim \<Rightarrow> 'w sim" where
  "substep env stages dt substepTime s0 =
     (let remaining = currentFrameDeltaTimeRemaining s0;
          ts = chooseTimeStep env dt substepTime s0;
          s1 = s0\<lparr>currentFrameTimeStep := ts,
                  currentFrameDeltaTimeRemaining := remaining - ts,
                  isLastFrameTimeStep := (\<bar>remaining - ts\<bar> < 1 / 1000000000),
                  logfile := logfile s0 @
                    [LogSubstep (currentFrame s0 + 1) (currentFrameTimeStepNumber s0 + 1) ts]\<rparr>;
          s2 = stepFluid stages ts s1
      in s2\<lparr>currentFrameTimeStepNumber := currentFrameTimeStepNumber s2 + 1\<rparr>)"

text \<open>
  The loop runs its body once and repeats while more than \<open>1e-9\<close> of the frame is left.
  A run that never leaves the loop has the value \<open>None\<close>.
\<close>

partial_function (option) update_loop ::
  "'w env \<Rightarrow> (real \<Rightarrow> 'w sim \<Rightarrow> 'w sim) \<Rightarrow> real \<Rightarrow> real \<Rightarrow> 'w sim \<Rightarrow> 'w sim option" where
  "update_loop env stages dt substepTime s =
     (let s' = substep env stages dt substepTime s
      in if currentFrameDeltaTimeRemaining s' > 1 / 1000000000
         then update_loop env stages dt substepTime s'
         else Some s')"

text \<open>
  The end of \<open>update\<close>: the frame record is filled, the log is handed to the output data
  (\<open>LogFile::flush\<close> returns the buffered text and empties the buffer), and the frame
  counter advances.
\<close>

definition finishFrame :: "real \<Rightarrow> 'w sim \<Rightarrow> 'w sim" where
  "finishFrame dt s =
     (let fd = \<lparr>frame = currentFrame s,
                substeps = currentFrameTimeStepNumber s,
                deltaTime = dt,
                fd_pressureSolverSuccess = solverSuccess (pressureSolver s),
                fd_pressureSolverError = solverError (pressureSolver s),
                fd_pressureSolverIterations = solverIterations (pressureSolver s),
                fd_viscositySolverSuccess = solverSuccess (viscositySolver s),
                fd_viscositySolverError = solverError (viscositySolver s),
                fd_viscositySolverIterations = solverIterations (viscositySolver s)\<rparr>
      in s\<lparr>outputData_frameData := fd,
            outputData_isInitialized := True,
            outputData_logfileData := logfile s,
            logfile := [],
            currentFrame := currentFrame s + 1,
            isCurrentFrameFinished := True\<rparr>)"

text \<open>
  \<open>update(dt)\<close>. \<open>std::runtime_error\<close> when the simulation is not initialized,
  \<open>std::domain_error\<close> when \<open>dt\<close> is negative; both checks precede every assignment.
  \<open>frameStart\<close> is the part of \<open>update\<close> between the checks and the loop.
\<close>

definition frameStart :: "real \<Rightarrow> 'w sim \<Rightarrow> 'w sim" where
  "frameStart dt0 s =
     (let epsdt = 1 / 1000000;
          dt = max dt0 epsdt;
          s1 = s\<lparr>isZeroLengthDeltaTime := (dt0 < epsdt),
                 isCurrentFrameFinished := False,
                 currentFrameDeltaTime := dt,
                 currentFrameDeltaTimeRemaining := dt,
                 currentFrameTimeStepNumber := 0\<rparr>;
          isDebuggingEnabled = (isFluidParticleDebugOutputEnabled s1
                                \<or> isInternalObstacleMeshOutputEnabled s1
                                \<or> isForceFieldDebugOutputEnabled s1);
          s2 = s1\<lparr>isSkippedFrame := (isZeroLengthDeltaTime s1 \<and> outputData_isInitialized s1
                                       \<and> \<not> isDebuggingEnabled)\<rparr>
      in s2\<lparr>pressureSolver :=
               \<lparr>solverSuccess = True, solverIterations = 0, solverError = 0\<rparr>,
             viscositySolver :=
               \<lparr>solverSuccess = True, solverIterations = 0, solverError = 0\<rparr>\<rparr>)"

definition update ::
  "'w env \<Rightarrow> (real \<Rightarrow> 'w sim \<Rightarrow> 'w sim) \<Rightarrow> real \<Rightarrow> 'w sim \<Rightarrow> (error option \<times> 'w sim) option" where
  "update env stages dt0 s =
     (if \<not> isSimulationInitialized s then Some (Some RuntimeError, s)
      else if dt0 < 0 then Some (Some DomainError, s)
      else
        (let dt = max dt0 (1 / 1000000);
             s3 = frameStart dt0 s;
             substepTime = currentFrameDeltaTime s3 / of_int (minFrameTimeSteps s3)
         in map_option (\<lambda>s4. (None, finishFrame dt s4))
              (update_loop env stages dt substepTime s3)))"

subsection \<open>A concrete configuration\<close>

text \<open>
  A small simulation used to evaluate the definitions. Its world is a counter of the
  velocity extrapolations done so far; the pressure solver fails while the counter is 0
  and succeeds afterwards; the fastest particle moves at \<open>1 - 1e-6\<close>, so that the CFL step
  \<open>CFL * dx / (v_max + 1e-6)\<close> is \<open>3/4\<close>.
\<close>

definition example_env :: "nat env" where
  "example_env =
     \<lparr>isFluidInSimulation = (\<lambda>w. True),
      isFluidGeneratingThisFrame = (\<lambda>w. False),
      predictMaximumMarkerParticleSpeed = (\<lambda>dt w. 0),
      getMaximumMarkerParticleSpeed = (\<lambda>w. 999999 / 1000000),
      getMaximumObstacleSpeed = (\<lambda>f dt w. 0),
      updateWeightGrid = (\<lambda>w. w),
      psolver_solve = (\<lambda>dt w.
        if w = 0
        then \<lparr>solveSuccess = False, solveIterations = 100, solveError = 1 / 2,
              solveStatus = ''failed''\<rparr>
        else \<lparr>solveSuccess = True, solveIterations = 3, solveError = 1 / 1000,
              solveStatus = ''success''\<rparr>),
      applySolutionToVelocityField = (\<lambda>dt w. w),
      clearVelocityField = (\<lambda>w. w),
      velocityAdvector_advect = (\<lambda>w. w),
      extrapolateVelocityField = (\<lambda>g n w. w + 1)\<rparr>"

definition example_sim_with :: "'w \<Rightarrow> 'w sim" where
  "example_sim_with w =
     \<lparr>isSimulationInitialized = True,
      isZeroLengthDeltaTime = False,
      isCurrentFrameFinished = True,
      isSkippedFrame = False,
      isLastFrameTimeStep = True,
      currentFrame = 3,
      currentFrameDeltaTime = 0,
      currentFrameDeltaTimeRemaining = 0,
      currentFrameTimeStep = 0,
      currentFrameTimeStepNumber = 0,
      minFrameTimeSteps = 1,
      maxFrameTimeSteps = 6,
      CFLConditionNumber = 1,
      dx = 3 / 4,
      isSurfaceTensionEnabled = False,
      surfaceTensionConstant = 0,
      surfaceTensionConditionNumber = 1,
      isFluidParticleDebugOutputEnabled = False,
      isInternalObstacleMeshOutputEnabled = False,
      isForceFieldDebugOutputEnabled = False,
      outputData_isInitialized = True,
      outputData_frameData =
        \<lparr>frame = 2, substeps = 1, deltaTime = 1,
         fd_pressureSolverSuccess = True, fd_pressureSolverError = 0,
         fd_pressureSolverIterations = 0,
         fd_viscositySolverSuccess = True, fd_viscositySolverError = 0,
         fd_viscositySolverIterations = 0\<rparr>,
      outputData_logfileData = [],
      pressureSolver = \<lparr>solverSuccess = True, solverIterations = 0, solverError = 0\<rparr>,
      pressureSolverStatus = [],
      viscositySolver = \<lparr>solverSuccess = True, solverIterations = 0, solverError = 0\<rparr>,
      ratioPICFLIP = 19 / 20,
      ratioPICAPIC = 19 / 20,
      density = 20,
      randomSeed = 0,
      logfile = [],
      world = w\<rparr>"

definition example_sim :: "nat sim" where
  "example_sim = example_sim_with 0"

text \<open>
  A second environment: the fastest particle is faster in every substep, so that the CFL
  step is the frame time \<open>1/1000\<close> divided by 2, 3, 7, 43 and 1807 in turn; every stage
  run advances the world counter.
\<close>

definition example_env_accelerating :: "nat env" where
  "example_env_accelerating =
     example_env\<lparr>getMaximumMarkerParticleSpeed :=
       (\<lambda>w. 750 * ([2, 3, 7, 43, 1807] ! w) - 1 / 1000000)\<rparr>"

definition example_stage :: "real \<Rightarrow> nat sim \<Rightarrow> nat sim" where
  "example_stage t s = s\<lparr>world := world s + 1\<rparr>"

subsection \<open>The contract of a validating setter\<close>

text \<open>
  The contract the specification gives for the setters, for a setter \<open>setter\<close>, the
  predicate \<open>invalid\<close> of rejected arguments and the getter \<open>getter\<close>: the call throws
  \<open>std::domain_error\<close> exactly on the rejected arguments, a throwing call leaves the whole
  state as it was, and after a normal return the getter returns the argument.
\<close>

definition spec_validating_setter ::
  "('a \<Rightarrow> 'w sim \<Rightarrow> error option \<times> 'w sim) \<Rightarrow> ('a \<Rightarrow> bool) \<Rightarrow> ('w sim \<Rightarrow> 'a) \<Rightarrow> bool" where
  "spec_validating_setter setter invalid getter =
     (\<forall>v s. (fst (setter v s) = Some DomainError \<longleftrightarrow> invalid v)
          \<and> (fst (setter v s) = None \<longleftrightarrow> \<not> invalid v)
          \<and> (invalid v \<longrightarrow> snd (setter v s) = s)
          \<and> (\<not> invalid v \<longrightarrow> getter (snd (setter v s)) = v))"

subsection \<open>States at the head of the frame loop\<close>


text \<open>The log lines of the substeps \<open>k + 1, k + 2, ...\<close> of a frame with the given lengths.\<close>

fun substep_log :: "int \<Rightarrow> int \<Rightarrow> real list \<Rightarrow> log_entry list" where
  "substep_log f k [] = []"
| "substep_log f k (t # ts) = LogSubstep f (k + 1) t # substep_log f (k + 1) ts"

text \<open>
  The speeds that the observers of the environment report are lengths of vectors and
  maxima of such, starting from 0.
\<close>

definition speeds_nonnegative :: "'w env \<Rightarrow> bool" where
  "speeds_nonnegative env =
     (\<forall>f t w. 0 \<le> predictMaximumMarkerParticleSpeed env t w
           \<and> 0 \<le> getMaximumMarkerParticleSpeed env w
           \<and> 0 \<le> getMaximumObstacleSpeed env f t w)"



section \<open>Particles and grids\<close>

subsection \<open>Vectors and the particle store\<close>

text \<open>\<open>vmath::vec3\<close> with the operators the engine uses.\<close>

datatype vec3 = Vec3 (vec_x: real) (vec_y: real) (vec_z: real)

instantiation vec3 :: "{zero, plus, minus}"
begin

definition zero_vec3 :: vec3 where
  "zero_vec3 = Vec3 0 0 0"

definition plus_vec3 :: "vec3 \<Rightarrow> vec3 \<Rightarrow> vec3" where
  "plus_vec3 a b = Vec3 (vec_x a + vec_x b) (vec_y a + vec_y b) (vec_z a + vec_z b)"

definition minus_vec3 :: "vec3 \<Rightarrow> vec3 \<Rightarrow> vec3" where
  "minus_vec3 a b = Vec3 (vec_x a - vec_x b) (vec_y a - vec_y b) (vec_z a - vec_z b)"

instance ..

end

definition smult :: "real \<Rightarrow> vec3 \<Rightarrow> vec3" where
  "smult c a = Vec3 (c * vec_x a) (c * vec_y a) (c * vec_z a)"

definition vlength :: "vec3 \<Rightarrow> real" where
  "vlength a = sqrt (vec_x a * vec_x a + vec_y a * vec_y a + vec_z a * vec_z a)"

definition normalize :: "vec3 \<Rightarrow> vec3" where
  "normalize a = smult (1 / vlength a) a"

text \<open>
  The particle store holds one column per attribute; the columns \<open>POSITION\<close> and
  \<open>VELOCITY\<close> always exist. The optional columns (age, lifetime, colour, source id,
  viscosity, id) are filled and filtered in step with them and are not modelled.
\<close>

record particle_system =
  POSITION :: "vec3 list"
  VELOCITY :: "vec3 list"


text \<open>\<open>std::vector::at\<close> with an \<open>int\<close> index: a negative index converts to a huge
  unsigned one, so it is out of range like an index past the end.\<close>

definition vector_at :: "'a list \<Rightarrow> int \<Rightarrow> error + 'a" where
  "vector_at xs i = (if 0 \<le> i \<and> i < int (length xs) then Inr (xs ! nat i) else Inl OutOfRange)"

text \<open>
  Modelled from the spec: \<open>ParticleSystem::removeParticles(mask)\<close> "deletes slots whose
  mask entry is true, preserving relative order"; every column is filtered by the same
  mask.
\<close>

definition remove_by_mask :: "'a list \<Rightarrow> bool list \<Rightarrow> 'a list" where
  "remove_by_mask xs isRemoved =
     map fst (filter (\<lambda>(x, removed). \<not> removed) (zip xs isRemoved))"

definition removeParticles :: "bool list \<Rightarrow> particle_system \<Rightarrow> particle_system" where
  "removeParticles isRemoved ps =
     ps\<lparr>POSITION := remove_by_mask (POSITION ps) isRemoved,
        VELOCITY := remove_by_mask (VELOCITY ps) isRemoved\<rparr>"

subsection \<open>Grid indices\<close>

type_synonym GridIndex = "int \<times> int \<times> int"

text \<open>
  Modelled from the spec: the domain is a grid of \<open>isize \<times> jsize \<times> ksize\<close> cubical
  cells of edge \<open>dx\<close> with index tuples \<open>(i, j, k)\<close>. \<open>Grid3d::positionToGridIndex\<close> is
  the cell that contains a position, \<open>Grid3d::isGridIndexInRange\<close> tests an index against
  the grid, \<open>Grid3d::GridIndexToCellCenter\<close> is the centre of a cell.
\<close>

definition positionToGridIndex :: "vec3 \<Rightarrow> real \<Rightarrow> GridIndex" where
  "positionToGridIndex p h = (\<lfloor>vec_x p / h\<rfloor>, \<lfloor>vec_y p / h\<rfloor>, \<lfloor>vec_z p / h\<rfloor>)"

definition isGridIndexInRange :: "GridIndex \<Rightarrow> int \<Rightarrow> int \<Rightarrow> int \<Rightarrow> bool" where
  "isGridIndexInRange g isize jsize ksize =
     (case g of (i, j, k) \<Rightarrow> 0 \<le> i \<and> 0 \<le> j \<and> 0 \<le> k \<and> i < isize \<and> j < jsize \<and> k < ksize)"


text \<open>
  Modelled from the spec: \<open>Array3d\<close>, a dense array over the grid. "Set operations on
  out-of-range indices fail with IndexOutOfRange", and so does reading a cell with
  \<open>operator()\<close>; the engine guards a read with \<open>isIndexInRange\<close> where a position may lie
  outside the grid.
\<close>

record 'a Array3d =
  width :: int
  height :: int
  depth :: int
  cell :: "GridIndex \<Rightarrow> 'a"

definition array3d :: "int \<Rightarrow> int \<Rightarrow> int \<Rightarrow> 'a \<Rightarrow> 'a Array3d" where
  "array3d isize jsize ksize v = \<lparr>width = isize, height = jsize, depth = ksize, cell = (\<lambda>g. v)\<rparr>"

definition isIndexInRange :: "'a Array3d \<Rightarrow> GridIndex \<Rightarrow> bool" where
  "isIndexInRange a g = isGridIndexInRange g (width a) (height a) (depth a)"

definition array3d_fill :: "'a \<Rightarrow> 'a Array3d \<Rightarrow> 'a Array3d" where
  "array3d_fill v a = a\<lparr>cell := (\<lambda>g. v)\<rparr>"

definition array3d_get :: "'a Array3d \<Rightarrow> GridIndex \<Rightarrow> error + 'a" where
  "array3d_get a g = (if isIndexInRange a g then Inr (cell a g) else Inl OutOfRange)"

fun array3d_set_cells :: "GridIndex list \<Rightarrow> 'a \<Rightarrow> 'a Array3d \<Rightarrow> error option \<times> 'a Array3d" where
  "array3d_set_cells [] v a = (None, a)"
| "array3d_set_cells (g # gs) v a =
     (if isIndexInRange a g then array3d_set_cells gs v (a\<lparr>cell := (cell a)(g := v)\<rparr>)
      else (Some OutOfRange, a))"

subsection \<open>FLIP velocity update\<close>

text \<open>
  \<open>_updatePICFLIPMarkerParticleVelocitiesThread(startidx, endidx)\<close>. The two grids enter
  through their trilinear evaluation \<open>evaluateVelocityAtPositionLinear\<close>:
  \<open>MACVelocity_at\<close> for the current field, \<open>savedVelocityField_at\<close> for the snapshot.
\<close>

function updatePICFLIP_loop ::
  "(vec3 \<Rightarrow> vec3) \<Rightarrow> (vec3 \<Rightarrow> vec3) \<Rightarrow> real \<Rightarrow> vec3 list \<Rightarrow> int \<Rightarrow> int \<Rightarrow> vec3 list
     \<Rightarrow> error option \<times> vec3 list" where
  "updatePICFLIP_loop MACVelocity_at savedVelocityField_at ratio positions i endidx velocities =
     (if i < endidx then
        (case vector_at positions i of
           Inl e \<Rightarrow> (Some e, velocities)
         | Inr pos \<Rightarrow>
            (case vector_at velocities i of
               Inl e \<Rightarrow> (Some e, velocities)
             | Inr vel \<Rightarrow>
                (let vPIC = MACVelocity_at pos;
                     vFLIP = vel + vPIC - savedVelocityField_at pos;
                     v = smult ratio vPIC + smult (1 - ratio) vFLIP
                 in updatePICFLIP_loop MACVelocity_at savedVelocityField_at ratio positions
                      (i + 1) endidx (velocities[nat i := v]))))
      else (None, velocities))"
  by pat_completeness auto
termination
  by (relation "measure (\<lambda>(m, sv, r, ps, i, e, vs). nat (e - i))") auto

definition updatePICFLIPMarkerParticleVelocitiesThread ::
  "(vec3 \<Rightarrow> vec3) \<Rightarrow> (vec3 \<Rightarrow> vec3) \<Rightarrow> real \<Rightarrow> int \<Rightarrow> int \<Rightarrow> particle_system
     \<Rightarrow> error option \<times> particle_system" where
  "updatePICFLIPMarkerParticleVelocitiesThread MACVelocity_at savedVelocityField_at ratio
     startidx endidx markerParticles =
     (case updatePICFLIP_loop MACVelocity_at savedVelocityField_at ratio
             (POSITION markerParticles) startidx endidx (VELOCITY markerParticles) of
        (e, velocities) \<Rightarrow> (e, markerParticles\<lparr>VELOCITY := velocities\<rparr>))"

text \<open>The update the specification gives for one particle.\<close>

definition spec_flip_velocity :: "real \<Rightarrow> vec3 \<Rightarrow> vec3 \<Rightarrow> vec3 \<Rightarrow> vec3" where
  "spec_flip_velocity ratio v_grid v_saved v_old =
     smult ratio v_grid + smult (1 - ratio) (v_old + (v_grid - v_saved))"

subsection \<open>Outflow sources\<close>

text \<open>
  The state the fluid sources work on: the dimensions of the grid and the two particle
  stores. It is the \<open>world\<close> component of the simulation state.
\<close>

record fluid_world =
  isize :: int
  jsize :: int
  ksize :: int
  markerParticles :: particle_system
  diffuseParticles :: particle_system

text \<open>
  A \<open>MeshFluidSource\<close> as \<open>_updateOutflowMeshFluidSource\<close> sees it after it has moved the
  source to the current frame time: its flags, the cells \<open>getCells\<close> returns, and its level
  set with \<open>trilinearInterpolate\<close> and the offset of the level set.
\<close>

record MeshFluidSource =
  isEnabled :: bool
  isFluidOutflowEnabled :: bool
  isDiffuseOutflowEnabled :: bool
  isOutflowInversed :: bool
  getCells :: "GridIndex list"
  trilinearInterpolate :: "vec3 \<Rightarrow> real"
  getMeshLevelSetOffset :: vec3

text \<open>The loop over the marker particles that fills \<open>isRemoved\<close>.\<close>

fun markOutflowMarkerParticles ::
  "bool Array3d \<Rightarrow> MeshFluidSource \<Rightarrow> real \<Rightarrow> vec3 list \<Rightarrow> error + bool list" where
  "markOutflowMarkerParticles isOutflowCell source h [] = Inr []"
| "markOutflowMarkerParticles isOutflowCell source h (p # ps) =
     (case array3d_get isOutflowCell (positionToGridIndex p h) of
        Inl e \<Rightarrow> Inl e
      | Inr outflow \<Rightarrow>
          (let removed =
                 (if outflow then
                    (let d = trilinearInterpolate source (p - getMeshLevelSetOffset source)
                     in if isOutflowInversed source \<and> d \<ge> 0 then True
                        else if \<not> isOutflowInversed source \<and> d < 0 then True
                        else False)
                  else False)
           in case markOutflowMarkerParticles isOutflowCell source h ps of
                Inl e \<Rightarrow> Inl e
              | Inr isRemoved \<Rightarrow> Inr (removed # isRemoved)))"

text \<open>The loop over the whitewater particles, which skips positions outside the grid.\<close>

fun markOutflowDiffuseParticles ::
  "bool Array3d \<Rightarrow> MeshFluidSource \<Rightarrow> real \<Rightarrow> vec3 list \<Rightarrow> bool list" where
  "markOutflowDiffuseParticles isOutflowCell source h [] = []"
| "markOutflowDiffuseParticles isOutflowCell source h (p # ps) =
     (let g = positionToGridIndex p h;
          removed =
            (if \<not> isIndexInRange isOutflowCell g then False
             else if cell isOutflowCell g then
               (let d = trilinearInterpolate source (p - getMeshLevelSetOffset source)
                in if isOutflowInversed source \<and> d \<ge> 0 then True
                   else if \<not> isOutflowInversed source \<and> d < 0 then True
                   else False)
             else False)
      in removed # markOutflowDiffuseParticles isOutflowCell source h ps)"

text \<open>\<open>_updateOutflowMeshFluidSource(source)\<close>.\<close>

definition updateOutflowMeshFluidSource ::
  "MeshFluidSource \<Rightarrow> fluid_world sim \<Rightarrow> error option \<times> fluid_world sim" where
  "updateOutflowMeshFluidSource source s =
     (if \<not> isEnabled source then (None, s)
      else if \<not> isFluidOutflowEnabled source \<and> \<not> isDiffuseOutflowEnabled source then (None, s)
      else
        (let w = world s;
             grid0 = array3d (isize w) (jsize w) (ksize w) False;
             (e, isOutflowCell) =
               (if isOutflowInversed source
                then array3d_set_cells (getCells source) False (array3d_fill True grid0)
                else array3d_set_cells (getCells source) True (array3d_fill False grid0))
         in case e of
              Some err \<Rightarrow> (Some err, s)
            | None \<Rightarrow>
                (let r1 = (if isFluidOutflowEnabled source then
                             (case markOutflowMarkerParticles isOutflowCell source (dx s)
                                     (POSITION (markerParticles w)) of
                                Inl err \<Rightarrow> Inl err
                              | Inr isRemoved \<Rightarrow>
                                  Inr (w\<lparr>markerParticles :=
                                           removeParticles isRemoved (markerParticles w)\<rparr>))
                           else Inr w)
                 in case r1 of
                      Inl err \<Rightarrow> (Some err, s)
                    | Inr w1 \<Rightarrow>
                        (if isDiffuseOutflowEnabled source then
                           (let isRemoved = markOutflowDiffuseParticles isOutflowCell source (dx s)
                                              (POSITION (diffuseParticles w1))
                            in (None, s\<lparr>world := w1\<lparr>diffuseParticles :=
                                            removeParticles isRemoved (diffuseParticles w1)\<rparr>\<rparr>))
                         else (None, s\<lparr>world := w1\<rparr>)))))"

text \<open>
  The region of an outflow source as the specification describes it: a position lies in
  the region to be emptied when its cell is marked as an outflow cell (a source cell, or
  for an inversed source any other cell) and the interpolated level set is negative (for an
  inversed source: not negative).
\<close>

definition spec_in_outflow_region :: "MeshFluidSource \<Rightarrow> real \<Rightarrow> vec3 \<Rightarrow> bool" where
  "spec_in_outflow_region source h p =
     (if isOutflowInversed source
      then positionToGridIndex p h \<notin> set (getCells source)
           \<and> trilinearInterpolate source (p - getMeshLevelSetOffset source) \<ge> 0
      else positionToGridIndex p h \<in> set (getCells source)
           \<and> trilinearInterpolate source (p - getMeshLevelSetOffset source) < 0)"

text \<open>The test that the marker particle loop applies to a position in the grid.\<close>

definition removal_test :: "bool Array3d \<Rightarrow> MeshFluidSource \<Rightarrow> real \<Rightarrow> vec3 \<Rightarrow> bool" where
  "removal_test grid source h p =
     (cell grid (positionToGridIndex p h)
      \<and> (if isOutflowInversed source
          then trilinearInterpolate source (p - getMeshLevelSetOffset source) \<ge> 0
          else trilinearInterpolate source (p - getMeshLevelSetOffset source) < 0))"

text \<open>
  A concrete outflow: a grid of \<open>2 \<times> 2 \<times> 2\<close> cells of edge 1, the source cell
  \<open>(0, 0, 0)\<close> and the level set \<open>x - 1/2\<close>; three marker particles, of which the first
  lies inside the source.
\<close>

definition example_outflow :: MeshFluidSource where
  "example_outflow =
     \<lparr>isEnabled = True, isFluidOutflowEnabled = True, isDiffuseOutflowEnabled = False,
      isOutflowInversed = False, getCells = [(0, 0, 0)],
      trilinearInterpolate = (\<lambda>p. vec_x p - 1 / 2),
      getMeshLevelSetOffset = Vec3 0 0 0\<rparr>"

definition example_fluid :: "fluid_world sim" where
  "example_fluid =
     (example_sim_with
        \<lparr>isize = 2, jsize = 2, ksize = 2,
         markerParticles =
           \<lparr>POSITION = [Vec3 (1 / 4) (1 / 2) (1 / 2), Vec3 (3 / 4) (1 / 2) (1 / 2),
                        Vec3 (3 / 2) (1 / 2) (1 / 2)],
            VELOCITY = [Vec3 1 0 0, Vec3 2 0 0, Vec3 3 0 0]\<rparr>,
         diffuseParticles = \<lparr>POSITION = [], VELOCITY = []\<rparr>\<rparr>)\<lparr>dx := 1\<rparr>"

subsection \<open>Adding marker particles\<close>



subsection \<open>Collisions of advected particles\<close>

text \<open>
  What the collision code uses from outside the engine file: the class \<open>AABB\<close> (its
  constructor, \<open>expand\<close>, \<open>isPointInside\<close>, \<open>getNearestPointInsideAABB\<close>), the solid level
  set with its interpolated value and gradient, and the members \<open>_nearSolidGrid\<close>,
  \<open>_nearSolidGridCellSize\<close>, \<open>_markerParticleStepDistanceFactor\<close>, \<open>_solidBufferWidth\<close>.
  The type \<open>'b\<close> is the type of boxes.
\<close>

record 'b collision_ctx =
  newAABB :: "real \<Rightarrow> real \<Rightarrow> real \<Rightarrow> real \<Rightarrow> real \<Rightarrow> real \<Rightarrow> 'b"
  expand :: "real \<Rightarrow> 'b \<Rightarrow> 'b"
  isPointInside :: "'b \<Rightarrow> vec3 \<Rightarrow> bool"
  getNearestPointInsideAABB :: "'b \<Rightarrow> vec3 \<Rightarrow> vec3"
  solidSDF_at :: "vec3 \<Rightarrow> real"
  solidSDF_gradient_at :: "vec3 \<Rightarrow> vec3"
  nearSolidGrid :: "bool Array3d"
  nearSolidGridCellSize :: real
  markerParticleStepDistanceFactor :: real
  solidBufferWidth :: real


text \<open>
  The stepping loop of \<open>_resolveCollision\<close>: it walks from the old position towards the
  new one and stops at the first step that is inside the solid or outside the boundary.
  The result is \<open>(foundCollision, collisionPhi, currentPosition, lastPosition)\<close>.
\<close>

function collision_search ::
  "'b collision_ctx \<Rightarrow> 'b \<Rightarrow> vec3 \<Rightarrow> vec3 \<Rightarrow> real \<Rightarrow> vec3 \<Rightarrow> int \<Rightarrow> int \<Rightarrow> vec3 \<Rightarrow> vec3
     \<Rightarrow> bool \<times> real \<times> vec3 \<times> vec3" where
  "collision_search ctx boundary oldp newp stepDistance stepdir stepidx numSteps
     currentPosition lastPosition =
     (if stepidx < numSteps then
        (let current = (if stepidx = numSteps - 1 then newp
                        else oldp + smult (of_int (stepidx + 1) * stepDistance) stepdir);
             phi = solidSDF_at ctx current
         in if phi < 0 \<or> \<not> isPointInside ctx boundary current
            then (True, phi, current, lastPosition)
            else collision_search ctx boundary oldp newp stepDistance stepdir (stepidx + 1)
                   numSteps current current)
      else (False, 0, currentPosition, lastPosition))"
  by pat_completeness auto
termination
  by (relation "measure (\<lambda>(c, b, op, np, sd, dir, i, n, cur, last). nat (n - i))") auto

text \<open>
  The part of \<open>_resolveCollision\<close> that runs when the old or the new position lies in a
  near-solid cell.
\<close>

definition resolveNearSolid ::
  "'b collision_ctx \<Rightarrow> fluid_world sim \<Rightarrow> vec3 \<Rightarrow> vec3 \<Rightarrow> 'b \<Rightarrow> vec3" where
  "resolveNearSolid ctx s oldp newp boundary =
     (let eps = 1 / 1000000;
          stepDistance = markerParticleStepDistanceFactor ctx * dx s;
          travelDistance = vlength (newp - oldp)
      in if travelDistance < eps then newp
         else
           (let numSteps = \<lceil>travelDistance / stepDistance\<rceil>;
                stepdir = normalize (newp - oldp);
                (foundCollision, collisionPhi, currentPosition, lastPosition) =
                  collision_search ctx boundary oldp newp stepDistance stepdir 0 numSteps
                    oldp oldp
            in if \<not> foundCollision then newp
               else
                 (let maxResolvedDistance = of_int (CFLConditionNumber s) * dx s;
                      grad = solidSDF_gradient_at ctx currentPosition;
                      resolved1 =
                        (if vlength grad > eps then
                           (let grad' = normalize grad;
                                rp = currentPosition
                                     - smult (collisionPhi - solidBufferWidth ctx * dx s) grad';
                                resolvedPhi = solidSDF_at ctx rp;
                                resolvedDistance = vlength (rp - currentPosition)
                            in if resolvedPhi < 0 \<or> resolvedDistance > maxResolvedDistance
                               then lastPosition else rp)
                         else lastPosition)
                  in if \<not> isPointInside ctx boundary resolved1 then
                       (let origPosition = resolved1;
                            rp = getNearestPointInsideAABB ctx boundary resolved1;
                            resolvedPhi = solidSDF_at ctx rp;
                            resolvedDistance = vlength (rp - origPosition)
                        in if resolvedPhi < 0 \<or> resolvedDistance > maxResolvedDistance
                           then lastPosition else rp)
                     else resolved1)))"

text \<open>
  \<open>_resolveCollision(oldp, newp, boundary)\<close>. Reading \<open>_nearSolidGrid\<close> at a cell outside
  that grid throws; the second read happens only when the first cell is not near a solid.
\<close>

definition resolveCollision ::
  "'b collision_ctx \<Rightarrow> fluid_world sim \<Rightarrow> vec3 \<Rightarrow> vec3 \<Rightarrow> 'b \<Rightarrow> error + vec3" where
  "resolveCollision ctx s oldp newp0 boundary =
     (let w = world s;
          gridg = positionToGridIndex newp0 (dx s);
          newp = (if \<not> isGridIndexInRange gridg (isize w) (jsize w) (ksize w)
                  then getNearestPointInsideAABB ctx boundary newp0 else newp0);
          oldg = positionToGridIndex oldp (nearSolidGridCellSize ctx);
          newg = positionToGridIndex newp (nearSolidGridCellSize ctx)
      in case array3d_get (nearSolidGrid ctx) oldg of
           Inl e \<Rightarrow> Inl e
         | Inr nearOld \<Rightarrow>
             (if nearOld then Inr (resolveNearSolid ctx s oldp newp boundary)
              else
                (case array3d_get (nearSolidGrid ctx) newg of
                   Inl e \<Rightarrow> Inl e
                 | Inr nearNew \<Rightarrow>
                     (if nearNew then Inr (resolveNearSolid ctx s oldp newp boundary)
                      else Inr newp))))"










subsection \<open>Inflow emission\<close>






























section \<open>Properties\<close>

subsection \<open>Facts about the concrete configuration\<close>

lemma example_sim_fields [simp]:
  "isSimulationInitialized example_sim"
  "maxFrameTimeSteps example_sim = 6"
  "minFrameTimeSteps example_sim = 1"
  "outputData_isInitialized example_sim"
  "\<not> isFluidParticleDebugOutputEnabled example_sim"
  "\<not> isInternalObstacleMeshOutputEnabled example_sim"
  "\<not> isForceFieldDebugOutputEnabled example_sim"
  "currentFrame example_sim = 3"
  "world example_sim = 0"
  "CFLConditionNumber example_sim = 1"
  "dx example_sim = 3 / 4"
  "\<not> isSurfaceTensionEnabled example_sim"
  "surfaceTensionConstant example_sim = 0"
  "surfaceTensionConditionNumber example_sim = 1"
  "currentFrameTimeStepNumber example_sim = 0"
  "logfile example_sim = []"
  by (simp_all add: example_sim_def example_sim_with_def)

lemma example_env_fields [simp]:
  "isFluidInSimulation example_env w"
  "\<not> isFluidGeneratingThisFrame example_env w"
  "predictMaximumMarkerParticleSpeed example_env t w = 0"
  "getMaximumMarkerParticleSpeed example_env w = 999999 / 1000000"
  "getMaximumObstacleSpeed example_env f t w = 0"
  "updateWeightGrid example_env w = w"
  "psolver_solve example_env t w =
     (if w = 0
      then \<lparr>solveSuccess = False, solveIterations = 100, solveError = 1 / 2,
            solveStatus = ''failed''\<rparr>
      else \<lparr>solveSuccess = True, solveIterations = 3, solveError = 1 / 1000,
            solveStatus = ''success''\<rparr>)"
  "applySolutionToVelocityField example_env t w = w"
  "clearVelocityField example_env w = w"
  "velocityAdvector_advect example_env w = w"
  "extrapolateVelocityField example_env g n w = w + 1"
  by (simp_all add: example_env_def)

subsection \<open>The frame loop\<close>

lemma stepFluid_control [simp]:
  "currentFrameTimeStepNumber (stepFluid stages t s) = currentFrameTimeStepNumber s"
  "maxFrameTimeSteps (stepFluid stages t s) = maxFrameTimeSteps s"
  "currentFrameDeltaTimeRemaining (stepFluid stages t s) = currentFrameDeltaTimeRemaining s"
  "currentFrame (stepFluid stages t s) = currentFrame s"
  "isSkippedFrame (stepFluid stages t s) = isSkippedFrame s"
  "logfile (stepFluid stages t s) = logfile s"
  by (simp_all add: stepFluid_def Let_def)

lemma substep_stepNumber:
  "currentFrameTimeStepNumber (substep env stages dt st s) = currentFrameTimeStepNumber s + 1"
  by (simp add: substep_def Let_def)

lemma substep_max:
  "maxFrameTimeSteps (substep env stages dt st s) = maxFrameTimeSteps s"
  by (simp add: substep_def Let_def)

lemma substep_last_remaining:
  "currentFrameTimeStepNumber s = maxFrameTimeSteps s - 1 \<Longrightarrow>
   currentFrameDeltaTimeRemaining (substep env stages dt st s) = 0"
  by (simp add: substep_def chooseTimeStep_def Let_def)

lemma substep_frame_fields [simp]:
  "currentFrame (substep env stages dt st s) = currentFrame s"
  "currentFrameDeltaTime (substep env stages dt st s) = currentFrameDeltaTime s"
  "isZeroLengthDeltaTime (substep env stages dt st s) = isZeroLengthDeltaTime s"
  "isSkippedFrame (substep env stages dt st s) = isSkippedFrame s"
  by (simp_all add: substep_def stepFluid_def Let_def)

lemma frameStart_fields [simp]:
  "currentFrameTimeStepNumber (frameStart dt s) = 0"
  "maxFrameTimeSteps (frameStart dt s) = maxFrameTimeSteps s"
  "minFrameTimeSteps (frameStart dt s) = minFrameTimeSteps s"
  "currentFrame (frameStart dt s) = currentFrame s"
  "world (frameStart dt s) = world s"
  "logfile (frameStart dt s) = logfile s"
  "CFLConditionNumber (frameStart dt s) = CFLConditionNumber s"
  "dx (frameStart dt s) = dx s"
  "isSurfaceTensionEnabled (frameStart dt s) = isSurfaceTensionEnabled s"
  "surfaceTensionConstant (frameStart dt s) = surfaceTensionConstant s"
  "surfaceTensionConditionNumber (frameStart dt s) = surfaceTensionConditionNumber s"
  "currentFrameDeltaTime (frameStart dt s) = max dt (1 / 1000000)"
  "currentFrameDeltaTimeRemaining (frameStart dt s) = max dt (1 / 1000000)"
  "isZeroLengthDeltaTime (frameStart dt s) = (dt < 1 / 1000000)"
  "isSkippedFrame (frameStart dt s) =
     (dt < 1 / 1000000 \<and> outputData_isInitialized s
      \<and> \<not> (isFluidParticleDebugOutputEnabled s \<or> isInternalObstacleMeshOutputEnabled s
             \<or> isForceFieldDebugOutputEnabled s))"
  by (simp_all add: frameStart_def Let_def)

text \<open>
  Total correctness of the loop: from a state whose substep number has not passed
  \<open>maxFrameTimeSteps - 1\<close> the loop returns, because the substep with that number consumes
  all the remaining time. Every invariant of the loop body holds of the final state.
\<close>

lemma update_loop_total2:
  assumes "I s" and "currentFrameTimeStepNumber s \<le> maxFrameTimeSteps s - 1"
    and "\<And>s. I s \<Longrightarrow> P (substep env stages dt st s)"
    and "\<And>t. P t \<Longrightarrow> currentFrameDeltaTimeRemaining t > 1 / 1000000000 \<Longrightarrow> I t"
  shows "\<exists>s'. update_loop env stages dt st s = Some s' \<and> P s'
            \<and> currentFrameDeltaTimeRemaining s' \<le> 1 / 1000000000
            \<and> currentFrameTimeStepNumber s < currentFrameTimeStepNumber s'
            \<and> currentFrameTimeStepNumber s' \<le> maxFrameTimeSteps s"
  using assms(1,2)
proof (induction "nat (maxFrameTimeSteps s - 1 - currentFrameTimeStepNumber s)" arbitrary: s)
  case 0
  then have last: "currentFrameTimeStepNumber s = maxFrameTimeSteps s - 1" by simp
  let ?s' = "substep env stages dt st s"
  have "currentFrameDeltaTimeRemaining ?s' = 0" using last by (rule substep_last_remaining)
  then have "update_loop env stages dt st s = Some ?s'"
    by (subst update_loop.simps) (simp add: Let_def)
  moreover have "P ?s'" using 0 assms(3) by blast
  ultimately show ?case
    using last \<open>currentFrameDeltaTimeRemaining ?s' = 0\<close>
    by (simp add: substep_stepNumber)
next
  case (Suc k)
  let ?s' = "substep env stages dt st s"
  have P': "P ?s'" using Suc assms(3) by blast
  have n': "currentFrameTimeStepNumber ?s' = currentFrameTimeStepNumber s + 1"
    by (rule substep_stepNumber)
  have m': "maxFrameTimeSteps ?s' = maxFrameTimeSteps s" by (rule substep_max)
  show ?case
  proof (cases "currentFrameDeltaTimeRemaining ?s' > 1 / 1000000000")
    case True
    have k: "k = nat (maxFrameTimeSteps ?s' - 1 - currentFrameTimeStepNumber ?s')"
      using Suc(2) n' m' by simp
    have le: "currentFrameTimeStepNumber ?s' \<le> maxFrameTimeSteps ?s' - 1"
      using Suc(2) n' m' by simp
    have I': "I ?s'" using P' True assms(4) by blast
    from Suc(1)[OF k I' le] obtain s'' where
      "update_loop env stages dt st ?s' = Some s''" "P s''"
      "currentFrameDeltaTimeRemaining s'' \<le> 1 / 1000000000"
      "currentFrameTimeStepNumber ?s' < currentFrameTimeStepNumber s''"
      "currentFrameTimeStepNumber s'' \<le> maxFrameTimeSteps ?s'" by blast
    moreover have "update_loop env stages dt st s = update_loop env stages dt st ?s'"
      using True by (subst update_loop.simps) (simp add: Let_def)
    ultimately show ?thesis using n' m' by auto
  next
    case False
    then have "update_loop env stages dt st s = Some ?s'"
      by (subst update_loop.simps) (simp add: Let_def)
    then show ?thesis using P' False n' m' Suc(2) by auto
  qed
qed

lemma update_loop_total:
  assumes "I s" and "currentFrameTimeStepNumber s \<le> maxFrameTimeSteps s - 1"
    and "\<And>s. I s \<Longrightarrow> I (substep env stages dt st s)"
  shows "\<exists>s'. update_loop env stages dt st s = Some s' \<and> I s'
            \<and> currentFrameDeltaTimeRemaining s' \<le> 1 / 1000000000
            \<and> currentFrameTimeStepNumber s < currentFrameTimeStepNumber s'
            \<and> currentFrameTimeStepNumber s' \<le> maxFrameTimeSteps s"
  by (rule update_loop_total2[where I = I and P = I]) (use assms in auto)

lemma update_returns:
  assumes "isSimulationInitialized s" and "0 \<le> dt" and "1 \<le> maxFrameTimeSteps s"
  shows "\<exists>s'. update env stages dt s = Some (None, s') \<and> isCurrentFrameFinished s'
            \<and> currentFrame s' = currentFrame s + 1"
proof -
  let ?s3 = "frameStart dt s"
  let ?st = "currentFrameDeltaTime ?s3 / of_int (minFrameTimeSteps ?s3)"
  have "\<exists>s'. update_loop env stages (max dt (1 / 1000000)) ?st ?s3 = Some s'
          \<and> currentFrame s' = currentFrame s
          \<and> currentFrameDeltaTimeRemaining s' \<le> 1 / 1000000000
          \<and> currentFrameTimeStepNumber ?s3 < currentFrameTimeStepNumber s'
          \<and> currentFrameTimeStepNumber s' \<le> maxFrameTimeSteps ?s3"
    by (rule update_loop_total[where I = "\<lambda>t. currentFrame t = currentFrame s"])
       (use assms in simp_all)
  then obtain s4 where "update_loop env stages (max dt (1 / 1000000)) ?st ?s3 = Some s4"
    "currentFrame s4 = currentFrame s" by blast
  then show ?thesis
    using assms by (simp add: update_def Let_def finishFrame_def)
qed



subsection \<open>Skipped frames\<close>

lemma substep_skipped:
  "isSkippedFrame s \<Longrightarrow> substep env stages dt st s = substep env (\<lambda>t s. s) dt st s"
  by (simp add: substep_def stepFluid_def Let_def)

lemma substep_skipped_world:
  "isSkippedFrame s \<Longrightarrow> world (substep env stages dt st s) = world s"
  by (simp add: substep_def stepFluid_def Let_def)

lemma update_loop_skipped:
  assumes "isSkippedFrame s" and "currentFrameTimeStepNumber s \<le> maxFrameTimeSteps s - 1"
  shows "update_loop env stages dt st s = update_loop env (\<lambda>t s. s) dt st s"
  using assms
proof (induction "nat (maxFrameTimeSteps s - 1 - currentFrameTimeStepNumber s)" arbitrary: s)
  case 0
  then have last: "currentFrameTimeStepNumber s = maxFrameTimeSteps s - 1" by simp
  have "update_loop env stages dt st s = Some (substep env stages dt st s)" for stages
    using substep_last_remaining[OF last, of env stages dt st]
    by (subst update_loop.simps) (simp add: Let_def)
  then show ?case using substep_skipped[OF 0(2)] by metis
next
  case (Suc k)
  let ?s' = "substep env (\<lambda>t s. s) dt st s"
  have eq: "substep env stages dt st s = ?s'" using Suc(3) by (rule substep_skipped)
  show ?case
  proof (cases "currentFrameDeltaTimeRemaining ?s' > 1 / 1000000000")
    case True
    have "k = nat (maxFrameTimeSteps ?s' - 1 - currentFrameTimeStepNumber ?s')"
      using Suc(2) by (simp add: substep_stepNumber substep_max)
    moreover have "isSkippedFrame ?s'" using Suc(3) by simp
    moreover have "currentFrameTimeStepNumber ?s' \<le> maxFrameTimeSteps ?s' - 1"
      using Suc(2) by (simp add: substep_stepNumber substep_max)
    ultimately have IH: "update_loop env stages dt st ?s' = update_loop env (\<lambda>t s. s) dt st ?s'"
      by (rule Suc(1))
    have "update_loop env stages dt st s = update_loop env stages dt st ?s'"
      using True eq by (subst update_loop.simps) (simp add: Let_def)
    moreover have "update_loop env (\<lambda>t s. s) dt st s = update_loop env (\<lambda>t s. s) dt st ?s'"
      using True by (subst update_loop.simps) (simp add: Let_def)
    ultimately show ?thesis using IH by simp
  next
    case False
    have "update_loop env stages dt st s = Some ?s'"
      using False eq by (subst update_loop.simps) (simp add: Let_def)
    moreover have "update_loop env (\<lambda>t s. s) dt st s = Some ?s'"
      using False by (subst update_loop.simps) (simp add: Let_def)
    ultimately show ?thesis by simp
  qed
qed

text \<open>
  Claim C10. \<open>update(dt)\<close> with \<open>0 \<le> dt < 1e-6\<close> does not throw; the frame runs with a
  delta time of \<open>1e-6\<close>. When output data of an earlier frame exists and no debug output is
  enabled, the frame is a skipped frame: the result does not depend on the pipeline stages
  (none of them runs) and the particles and grids are unchanged, yet the loop runs at least
  one substep, the frame counter advances and the frame is marked finished.
\<close>

theorem update_zero_dt_skipped_frame:
  assumes "isSimulationInitialized s" and "0 \<le> dt" and "dt < 1 / 1000000"
    and "1 \<le> maxFrameTimeSteps s"
    and "outputData_isInitialized s"
    and "\<not> isFluidParticleDebugOutputEnabled s"
    and "\<not> isInternalObstacleMeshOutputEnabled s"
    and "\<not> isForceFieldDebugOutputEnabled s"
  shows "\<exists>s'. update env stages dt s = Some (None, s')
           \<and> update env stages dt s = update env (\<lambda>t s. s) dt s
           \<and> isZeroLengthDeltaTime s' \<and> isSkippedFrame s'
           \<and> currentFrameDeltaTime s' = 1 / 1000000
           \<and> deltaTime (outputData_frameData s') = 1 / 1000000
           \<and> world s' = world s
           \<and> 1 \<le> substeps (outputData_frameData s')
           \<and> currentFrame s' = currentFrame s + 1
           \<and> isCurrentFrameFinished s'"
proof -
  let ?s3 = "frameStart dt s"
  let ?st = "currentFrameDeltaTime ?s3 / of_int (minFrameTimeSteps ?s3)"
  let ?dt = "max dt (1 / 1000000)"
  have dt: "?dt = 1 / 1000000" using assms(3) by simp
  have sk: "isSkippedFrame ?s3" using assms by simp
  let ?I = "\<lambda>t. currentFrame t = currentFrame s \<and> isSkippedFrame t \<and> world t = world s
               \<and> isZeroLengthDeltaTime t \<and> currentFrameDeltaTime t = 1 / 1000000"
  have "\<exists>s'. update_loop env stages ?dt ?st ?s3 = Some s' \<and> ?I s'
          \<and> currentFrameDeltaTimeRemaining s' \<le> 1 / 1000000000
          \<and> currentFrameTimeStepNumber ?s3 < currentFrameTimeStepNumber s'
          \<and> currentFrameTimeStepNumber s' \<le> maxFrameTimeSteps ?s3"
  proof (rule update_loop_total[where I = ?I])
    show "?I ?s3" using assms by simp
    show "currentFrameTimeStepNumber ?s3 \<le> maxFrameTimeSteps ?s3 - 1" using assms by simp
    show "\<And>t. ?I t \<Longrightarrow> ?I (substep env stages ?dt ?st t)"
      by (simp add: substep_skipped_world)
  qed
  then obtain s4 where s4: "update_loop env stages ?dt ?st ?s3 = Some s4" "?I s4"
    "0 < currentFrameTimeStepNumber s4" by auto
  have eq: "update_loop env stages ?dt ?st ?s3 = update_loop env (\<lambda>t s. s) ?dt ?st ?s3"
    by (rule update_loop_skipped) (use sk assms in simp_all)
  have u: "update env stages dt s = Some (None, finishFrame ?dt s4)"
    using assms s4(1) by (simp add: update_def Let_def)
  have l': "update_loop env (\<lambda>t s. s) ?dt ?st ?s3 = Some s4"
    using eq s4(1) by simp
  have u': "update env (\<lambda>t s. s) dt s = Some (None, finishFrame ?dt s4)"
    using assms l' by (simp add: update_def Let_def)
  show ?thesis
    using u u' s4(2,3) dt by (simp add: finishFrame_def Let_def)
qed

theorem update_zero_dt_skipped_frame_witness:
  "isSimulationInitialized example_sim \<and> (0::real) \<le> 0 \<and> (0::real) < 1 / 1000000
   \<and> 1 \<le> maxFrameTimeSteps example_sim \<and> outputData_isInitialized example_sim
   \<and> \<not> isFluidParticleDebugOutputEnabled example_sim
   \<and> \<not> isInternalObstacleMeshOutputEnabled example_sim
   \<and> \<not> isForceFieldDebugOutputEnabled example_sim
   \<and> (\<exists>s'. update example_env (pressureSolve example_env) 0 example_sim = Some (None, s')
         \<and> isSkippedFrame s' \<and> world s' = 0 \<and> currentFrame s' = 4
         \<and> isCurrentFrameFinished s')"
proof -
  have "\<exists>s'. update example_env (pressureSolve example_env) 0 example_sim = Some (None, s')
           \<and> update example_env (pressureSolve example_env) 0 example_sim
               = update example_env (\<lambda>t s. s) 0 example_sim
           \<and> isZeroLengthDeltaTime s' \<and> isSkippedFrame s'
           \<and> currentFrameDeltaTime s' = 1 / 1000000
           \<and> deltaTime (outputData_frameData s') = 1 / 1000000
           \<and> world s' = world example_sim
           \<and> 1 \<le> substeps (outputData_frameData s')
           \<and> currentFrame s' = currentFrame example_sim + 1
           \<and> isCurrentFrameFinished s'"
    by (rule update_zero_dt_skipped_frame) simp_all
  then obtain s' where
    "update example_env (pressureSolve example_env) 0 example_sim = Some (None, s')"
    "isSkippedFrame s'" "world s' = 0" "currentFrame s' = 4" "isCurrentFrameFinished s'"
    by auto
  then show ?thesis by auto
qed

subsection \<open>Setters\<close>

text \<open>
  Claim C8. \<open>setPICFLIPRatio(r)\<close> throws \<open>std::domain_error\<close> exactly when \<open>r < 0\<close> or
  \<open>r > 1\<close>; a throwing call leaves the state unchanged, and after a normal return
  \<open>getPICFLIPRatio()\<close> is \<open>r\<close>. The same holds of \<open>setDensity\<close> (rejecting \<open>p \<le> 0\<close>),
  \<open>setPICAPICRatio\<close>, \<open>setCFLConditionNumber\<close>, \<open>setSurfaceTensionConditionNumber\<close>,
  \<open>setMinTimeStepsPerFrame\<close> and \<open>setMaxTimeStepsPerFrame\<close>.
\<close>

theorem setters_validate_before_writing:
  "spec_validating_setter setPICFLIPRatio (\<lambda>r. r < 0 \<or> r > 1) getPICFLIPRatio
   \<and> spec_validating_setter setDensity (\<lambda>p. p \<le> 0) getDensity
   \<and> spec_validating_setter setPICAPICRatio (\<lambda>r. r < 0 \<or> r > 1) getPICAPICRatio
   \<and> spec_validating_setter setCFLConditionNumber (\<lambda>n. n < 1) getCFLConditionNumber
   \<and> spec_validating_setter setSurfaceTensionConditionNumber (\<lambda>n. n \<le> 0)
        getSurfaceTensionConditionNumber
   \<and> spec_validating_setter setMinTimeStepsPerFrame (\<lambda>n. n < 1) getMinTimeStepsPerFrame
   \<and> spec_validating_setter setMaxTimeStepsPerFrame (\<lambda>n. n < 1) getMaxTimeStepsPerFrame"
proof (intro conjI)
  show "spec_validating_setter setPICFLIPRatio (\<lambda>r. r < 0 \<or> r > 1) getPICFLIPRatio"
    by (simp add: spec_validating_setter_def setPICFLIPRatio_def getPICFLIPRatio_def)
  show "spec_validating_setter setDensity (\<lambda>p. p \<le> 0) getDensity"
    by (simp add: spec_validating_setter_def setDensity_def getDensity_def)
  show "spec_validating_setter setPICAPICRatio (\<lambda>r. r < 0 \<or> r > 1) getPICAPICRatio"
    by (simp add: spec_validating_setter_def setPICAPICRatio_def getPICAPICRatio_def)
  show "spec_validating_setter setCFLConditionNumber (\<lambda>n. n < 1) getCFLConditionNumber"
    by (simp add: spec_validating_setter_def setCFLConditionNumber_def
                  getCFLConditionNumber_def)
  show "spec_validating_setter setSurfaceTensionConditionNumber (\<lambda>n. n \<le> 0)
          getSurfaceTensionConditionNumber"
    by (simp add: spec_validating_setter_def setSurfaceTensionConditionNumber_def
                  getSurfaceTensionConditionNumber_def)
  show "spec_validating_setter setMinTimeStepsPerFrame (\<lambda>n. n < 1) getMinTimeStepsPerFrame"
    by (simp add: spec_validating_setter_def setMinTimeStepsPerFrame_def
                  getMinTimeStepsPerFrame_def)
  show "spec_validating_setter setMaxTimeStepsPerFrame (\<lambda>n. n < 1) getMaxTimeStepsPerFrame"
    by (simp add: spec_validating_setter_def setMaxTimeStepsPerFrame_def
                  getMaxTimeStepsPerFrame_def)
qed

theorem setters_validate_before_writing_witness:
  "fst (setPICFLIPRatio 2 example_sim) = Some DomainError
   \<and> snd (setPICFLIPRatio 2 example_sim) = example_sim
   \<and> fst (setPICFLIPRatio (-1) example_sim) = Some DomainError
   \<and> fst (setPICFLIPRatio (1 / 2) example_sim) = None
   \<and> getPICFLIPRatio (snd (setPICFLIPRatio (1 / 2) example_sim)) = 1 / 2
   \<and> fst (setDensity 0 example_sim) = Some DomainError
   \<and> snd (setDensity 0 example_sim) = example_sim
   \<and> fst (setDensity 1000 example_sim) = None
   \<and> getDensity (snd (setDensity 1000 example_sim)) = 1000"
proof -
  have P: "spec_validating_setter setPICFLIPRatio (\<lambda>r. r < 0 \<or> r > 1)
             (getPICFLIPRatio :: nat sim \<Rightarrow> real)"
    and D: "spec_validating_setter setDensity (\<lambda>p. p \<le> 0) (getDensity :: nat sim \<Rightarrow> real)"
    using setters_validate_before_writing by blast+
  have "(2::real) < 0 \<or> (2::real) > 1" "(-1::real) < 0 \<or> (-1::real) > 1"
       "\<not> ((1/2::real) < 0 \<or> (1/2::real) > 1)" "(0::real) \<le> 0" "\<not> (1000::real) \<le> 0"
    by simp_all
  then show ?thesis
    using P D unfolding spec_validating_setter_def by metis
qed

subsection \<open>Pressure solver status\<close>

text \<open>
  What \<open>_pressureSolve\<close> leaves in the status members: it is computed from the result of
  this substep alone, because the members are reset when the function is entered. On a
  later substep the merge therefore starts from "success with 0 iterations".
\<close>

lemma pressureSolve_status:
  "pressureSolver (pressureSolve env dt s) =
     (if isFluidInSimulation env (world s) then
        (let r = psolver_solve env dt (updateWeightGrid env (world s))
         in if currentFrameTimeStepNumber s = 0
            then \<lparr>solverSuccess = solveSuccess r, solverIterations = solveIterations r,
                  solverError = solveError r\<rparr>
            else spec_reduce_status
                   \<lparr>solverSuccess = True, solverIterations = 0, solverError = 0\<rparr> r)
      else \<lparr>solverSuccess = True, solverIterations = 0, solverError = 0\<rparr>)"
  by (simp add: pressureSolve_def extrapolateFluidVelocities_def spec_reduce_status_def Let_def)

lemma pressureSolve_status_forgets:
  "pressureSolver (pressureSolve env dt (s\<lparr>pressureSolver := st\<rparr>))
     = pressureSolver (pressureSolve env dt s)"
  by (simp add: pressureSolve_status)

text \<open>
  Claim C3, evaluated. A frame of two substeps in which the first pressure solve fails
  (100 iterations, error \<open>1/2\<close>) and the second succeeds (3 iterations): the frame data
  report success with 3 iterations, where the reduction of the specification keeps the
  failure of the first substep.
\<close>

theorem pressureSolve_forgets_recorded_failure:
  "(\<exists>s'. update example_env (pressureSolve example_env) 1 example_sim = Some (None, s')
        \<and> substeps (outputData_frameData s') = 2
        \<and> fd_pressureSolverSuccess (outputData_frameData s')
        \<and> fd_pressureSolverIterations (outputData_frameData s') = 3)
   \<and> pressureSolver (pressureSolve example_env (1 / 2) example_sim)
       = \<lparr>solverSuccess = False, solverIterations = 100, solverError = 1 / 2\<rparr>
   \<and> spec_reduce_status \<lparr>solverSuccess = False, solverIterations = 100, solverError = 1 / 2\<rparr>
        \<lparr>solveSuccess = True, solveIterations = 3, solveError = 1 / 1000,
         solveStatus = ''success''\<rparr>
       = \<lparr>solverSuccess = False, solverIterations = 100, solverError = 1 / 2\<rparr>"
proof (intro conjI)
  obtain s' where u: "update example_env (pressureSolve example_env) 1 example_sim
                        = Some (None, s')"
    using update_returns[of example_sim 1 example_env "pressureSolve example_env"] by auto
  have "substeps (outputData_frameData s') = 2
        \<and> fd_pressureSolverSuccess (outputData_frameData s')
        \<and> fd_pressureSolverIterations (outputData_frameData s') = 3"
    using u
    apply (simp add: update_def Let_def)
    apply (subst (asm) update_loop.simps)
    apply (simp add: substep_def chooseTimeStep_def calculateNextTimeStep_def stepFluid_def pressureSolve_def
                     frameStart_def Let_def extrapolateFluidVelocities_def)
    apply (subst (asm) update_loop.simps)
    apply (simp add: substep_def chooseTimeStep_def calculateNextTimeStep_def stepFluid_def pressureSolve_def
                     frameStart_def Let_def extrapolateFluidVelocities_def)
    apply (auto simp: finishFrame_def)
    done
  with u show "\<exists>s'. update example_env (pressureSolve example_env) 1 example_sim = Some (None, s')
        \<and> substeps (outputData_frameData s') = 2
        \<and> fd_pressureSolverSuccess (outputData_frameData s')
        \<and> fd_pressureSolverIterations (outputData_frameData s') = 3" by blast
next
  show "pressureSolver (pressureSolve example_env (1 / 2) example_sim)
       = \<lparr>solverSuccess = False, solverIterations = 100, solverError = 1 / 2\<rparr>"
    by (simp add: pressureSolve_status example_sim_def example_sim_with_def)
next
  show "spec_reduce_status \<lparr>solverSuccess = False, solverIterations = 100, solverError = 1 / 2\<rparr>
        \<lparr>solveSuccess = True, solveIterations = 3, solveError = 1 / 1000,
         solveStatus = ''success''\<rparr>
       = \<lparr>solverSuccess = False, solverIterations = 100, solverError = 1 / 2\<rparr>"
    by (simp add: spec_reduce_status_def)
qed

theorem pressureSolve_forgets_recorded_failure_witness:
  "\<not> solveSuccess (psolver_solve example_env (1 / 2) (world example_sim))
   \<and> (\<exists>s'. update example_env (pressureSolve example_env) 1 example_sim = Some (None, s')
         \<and> fd_pressureSolverSuccess (outputData_frameData s'))"
  using pressureSolve_forgets_recorded_failure by auto

subsection \<open>Time stepping\<close>














lemma example_speeds_nonnegative [simp]: "speeds_nonnegative example_env"
  by (simp add: speeds_nonnegative_def)


subsection \<open>The substep is not the CFL step itself\<close>



lemma example_acc_fields [simp]:
  "isFluidInSimulation example_env_accelerating w"
  "\<not> isFluidGeneratingThisFrame example_env_accelerating w"
  "getMaximumMarkerParticleSpeed example_env_accelerating w
     = 750 * ([2, 3, 7, 43, 1807] ! w) - 1 / 1000000"
  "getMaximumObstacleSpeed example_env_accelerating f t w = 0"
  by (simp_all add: example_env_accelerating_def example_env_def)

lemma ex_frame_short:
  "map_option (outputData_logfileData \<circ> snd)
     (update example_env_accelerating example_stage (1 / 1000) example_sim)
     = Some [LogSubstep 4 1 (1 / 2000), LogSubstep 4 2 (1 / 3000), LogSubstep 4 3 (1 / 7000),
             LogSubstep 4 4 (1 / 43000), LogSubstep 4 5 (1 / 1807000)]"
proof -
  obtain s' where u: "update example_env_accelerating example_stage (1 / 1000) example_sim
                        = Some (None, s')"
    using update_returns[of example_sim "1 / 1000" example_env_accelerating example_stage]
    by auto
  have "outputData_logfileData s'
          = [LogSubstep 4 1 (1 / 2000), LogSubstep 4 2 (1 / 3000), LogSubstep 4 3 (1 / 7000),
             LogSubstep 4 4 (1 / 43000), LogSubstep 4 5 (1 / 1807000)]"
    using u
    apply (simp add: update_def Let_def)
    apply (subst (asm) update_loop.simps)
    apply (simp add: substep_def chooseTimeStep_def calculateNextTimeStep_def stepFluid_def
                     example_stage_def frameStart_def Let_def)
    apply (subst (asm) update_loop.simps)
    apply (simp add: substep_def chooseTimeStep_def calculateNextTimeStep_def stepFluid_def
                     example_stage_def frameStart_def Let_def)
    apply (subst (asm) update_loop.simps)
    apply (simp add: substep_def chooseTimeStep_def calculateNextTimeStep_def stepFluid_def
                     example_stage_def frameStart_def Let_def)
    apply (subst (asm) update_loop.simps)
    apply (simp add: substep_def chooseTimeStep_def calculateNextTimeStep_def stepFluid_def
                     example_stage_def frameStart_def Let_def)
    apply (subst (asm) update_loop.simps)
    apply (simp add: substep_def chooseTimeStep_def calculateNextTimeStep_def stepFluid_def
                     example_stage_def frameStart_def Let_def)
    apply (auto simp: finishFrame_def)
    done
  with u show ?thesis by simp
qed


text \<open>
  The sum of the substeps can fall short of the frame time: the loop stops as soon as no
  more than \<open>1e-9\<close> remains. Here the frame of \<open>1/1000\<close> ends after five substeps with
  \<open>1/3263442000\<close> left over.
\<close>

lemma frame_time_not_fully_consumed:
  "map_option (outputData_logfileData \<circ> snd)
     (update example_env_accelerating example_stage (1 / 1000) example_sim)
     = Some (substep_log 4 0 [1 / 2000, 1 / 3000, 1 / 7000, 1 / 43000, 1 / 1807000])
   \<and> sum_list [1 / 2000, 1 / 3000, 1 / 7000, 1 / 43000, 1 / 1807000]
       = (1 / 1000 - 1 / 3263442000 :: real)"
  using ex_frame_short by simp

subsection \<open>Extrapolation layers\<close>

text \<open>
  The number of layers in integer arithmetic: for a CFL number \<open>n \<ge> 0\<close>,
  \<open>ceil(sqrt 3 * n)\<close> is the \<open>m\<close> with \<open>(m - 1)\<^sup>2 < 3 n\<^sup>2 \<le> m\<^sup>2\<close>.
\<close>

lemma ceiling_sqrt3_iff:
  assumes "0 \<le> n" and "1 \<le> m"
  shows "\<lceil>sqrt 3 * real_of_int n\<rceil> = m \<longleftrightarrow> (m - 1)\<^sup>2 < 3 * n\<^sup>2 \<and> 3 * n\<^sup>2 \<le> m\<^sup>2"
proof -
  have x: "sqrt 3 * real_of_int n = sqrt (real_of_int (3 * n\<^sup>2))"
    using assms(1) by (simp add: real_sqrt_mult)
  have m: "real_of_int m = sqrt (real_of_int (m\<^sup>2))"
    using assms(2) by simp
  have m1: "real_of_int m - 1 = sqrt (real_of_int ((m - 1)\<^sup>2))"
    using assms(2) by simp
  have a: "sqrt (real_of_int (3 * n\<^sup>2)) \<le> real_of_int m \<longleftrightarrow> 3 * n\<^sup>2 \<le> m\<^sup>2"
    by (subst m) (simp only: real_sqrt_le_iff of_int_le_iff)
  have b: "real_of_int m - 1 < sqrt (real_of_int (3 * n\<^sup>2)) \<longleftrightarrow> (m - 1)\<^sup>2 < 3 * n\<^sup>2"
    by (subst m1) (simp only: real_sqrt_less_iff of_int_less_iff)
  show ?thesis unfolding x ceiling_eq_iff using a b by auto
qed


lemma layers_for_CFL_5: "\<lceil>sqrt 3 * real_of_int 5\<rceil> + 3 = 12"
proof -
  have "\<lceil>sqrt 3 * real_of_int 5\<rceil> = 9" by (subst ceiling_sqrt3_iff) simp_all
  then show ?thesis by simp
qed



subsection \<open>FLIP velocity update\<close>

lemma vec3_assoc: "(a::vec3) + b - c = a + (b - c)"
  by (simp add: plus_vec3_def minus_vec3_def)

lemma smult_one [simp]: "smult 1 a = a"
  by (cases a) (simp add: smult_def)

lemma smult_zero_add [simp]: "a + smult 0 b = a"
  by (cases a) (simp add: smult_def plus_vec3_def)

lemma spec_flip_velocity_pic: "spec_flip_velocity 1 v_grid v_saved v_old = v_grid"
  by (simp add: spec_flip_velocity_def)

lemma updatePICFLIP_loop_correct:
  assumes "length positions = length velocities" and "0 \<le> i"
    and "endidx \<le> int (length velocities)"
  shows "\<exists>vs. updatePICFLIP_loop M S ratio positions i endidx velocities = (None, vs)
           \<and> length vs = length velocities
           \<and> (\<forall>j < length velocities.
                 vs ! j = (if i \<le> int j \<and> int j < endidx
                           then spec_flip_velocity ratio (M (positions ! j)) (S (positions ! j))
                                  (velocities ! j)
                           else velocities ! j))"
  using assms
proof (induction M S ratio positions i endidx velocities rule: updatePICFLIP_loop.induct)
  case (1 M S ratio positions i endidx velocities)
  show ?case
  proof (cases "i < endidx")
    case False
    then show ?thesis by (subst updatePICFLIP_loop.simps) auto
  next
    case True
    let ?n = "nat i"
    have inr: "?n < length velocities" "?n < length positions" using True 1(2,3,4) by auto
    have p: "vector_at positions i = Inr (positions ! ?n)"
      and v: "vector_at velocities i = Inr (velocities ! ?n)"
      using True 1(2,3,4) by (auto simp: vector_at_def)
    let ?v = "smult ratio (M (positions ! ?n))
               + smult (1 - ratio) (velocities ! ?n + M (positions ! ?n) - S (positions ! ?n))"
    let ?vs = "velocities[?n := ?v]"
    have v_eq: "?v = spec_flip_velocity ratio (M (positions ! ?n)) (S (positions ! ?n))
                      (velocities ! ?n)"
      by (simp add: spec_flip_velocity_def vec3_assoc)
    have step: "updatePICFLIP_loop M S ratio positions i endidx velocities
                 = updatePICFLIP_loop M S ratio positions (i + 1) endidx ?vs"
      using True p v by (subst updatePICFLIP_loop.simps) (simp add: Let_def)
    have "\<exists>vs. updatePICFLIP_loop M S ratio positions (i + 1) endidx ?vs = (None, vs)
           \<and> length vs = length ?vs
           \<and> (\<forall>j < length ?vs.
                 vs ! j = (if i + 1 \<le> int j \<and> int j < endidx
                           then spec_flip_velocity ratio (M (positions ! j)) (S (positions ! j))
                                  (?vs ! j)
                           else ?vs ! j))"
      by (rule 1(1)[OF True p v refl refl refl]) (use 1(2,3,4) in auto)
    then obtain vs where vs:
      "updatePICFLIP_loop M S ratio positions (i + 1) endidx ?vs = (None, vs)"
      "length vs = length velocities"
      "\<forall>j < length velocities.
                 vs ! j = (if i + 1 \<le> int j \<and> int j < endidx
                           then spec_flip_velocity ratio (M (positions ! j)) (S (positions ! j))
                                  (?vs ! j)
                           else ?vs ! j)"
      by auto
    have "vs ! j = (if i \<le> int j \<and> int j < endidx
                           then spec_flip_velocity ratio (M (positions ! j)) (S (positions ! j))
                                  (velocities ! j)
                           else velocities ! j)" if j: "j < length velocities" for j
    proof (cases "j = ?n")
      case True
      then have "vs ! j = ?vs ! j" using vs(3) j 1(3) by auto
      also have "\<dots> = ?v" using True inr by simp
      finally show ?thesis using True v_eq \<open>i < endidx\<close> 1(3) by simp
    next
      case False
      then have "?vs ! j = velocities ! j" by simp
      moreover have "(i + 1 \<le> int j) = (i \<le> int j)" using False 1(3) by auto
      ultimately show ?thesis using vs(3) j by simp
    qed
    then show ?thesis using step vs(1,2) by simp
  qed
qed

text \<open>
  Claim C1. For a thread whose index range lies within the particle store,
  \<open>_updatePICFLIPMarkerParticleVelocitiesThread\<close> returns normally, leaves the positions
  and the velocities outside its range unchanged, and gives every particle of its range
  the velocity \<open>ratio * v_grid(p) + (1 - ratio) * (v_old + (v_grid(p) - v_saved(p)))\<close>;
  with \<open>ratio = 1\<close> the new velocity is \<open>v_grid(p)\<close>, whatever the old velocity was.
\<close>

theorem flip_velocity_update:
  assumes "length (POSITION ps) = length (VELOCITY ps)" and "0 \<le> startidx"
    and "endidx \<le> int (length (VELOCITY ps))"
  shows "\<exists>vs. updatePICFLIPMarkerParticleVelocitiesThread M S ratio startidx endidx ps
                = (None, ps\<lparr>VELOCITY := vs\<rparr>)
           \<and> length vs = length (VELOCITY ps)
           \<and> (\<forall>j < length (VELOCITY ps).
                 vs ! j = (if startidx \<le> int j \<and> int j < endidx
                           then smult ratio (M (POSITION ps ! j))
                                + smult (1 - ratio)
                                    (VELOCITY ps ! j + (M (POSITION ps ! j) - S (POSITION ps ! j)))
                           else VELOCITY ps ! j))
           \<and> (ratio = 1 \<longrightarrow>
                (\<forall>j < length (VELOCITY ps). startidx \<le> int j \<and> int j < endidx \<longrightarrow>
                   vs ! j = M (POSITION ps ! j)))"
proof -
  obtain vs where vs:
    "updatePICFLIP_loop M S ratio (POSITION ps) startidx endidx (VELOCITY ps) = (None, vs)"
    "length vs = length (VELOCITY ps)"
    "\<forall>j < length (VELOCITY ps).
        vs ! j = (if startidx \<le> int j \<and> int j < endidx
                  then spec_flip_velocity ratio (M (POSITION ps ! j)) (S (POSITION ps ! j))
                         (VELOCITY ps ! j)
                  else VELOCITY ps ! j)"
    using updatePICFLIP_loop_correct[OF assms, of M S ratio] by blast
  have "updatePICFLIPMarkerParticleVelocitiesThread M S ratio startidx endidx ps
          = (None, ps\<lparr>VELOCITY := vs\<rparr>)"
    using vs(1) by (simp add: updatePICFLIPMarkerParticleVelocitiesThread_def)
  moreover have "ratio = 1 \<longrightarrow>
                (\<forall>j < length (VELOCITY ps). startidx \<le> int j \<and> int j < endidx \<longrightarrow>
                   vs ! j = M (POSITION ps ! j))"
    using vs(3) by (simp add: spec_flip_velocity_pic)
  ultimately show ?thesis
    using vs(2,3) unfolding spec_flip_velocity_def by blast
qed

theorem flip_velocity_update_witness:
  "length (POSITION \<lparr>POSITION = [Vec3 0 0 0, Vec3 1 1 1], VELOCITY = [Vec3 5 0 0, Vec3 0 7 0]\<rparr>)
     = length (VELOCITY \<lparr>POSITION = [Vec3 0 0 0, Vec3 1 1 1],
                          VELOCITY = [Vec3 5 0 0, Vec3 0 7 0]\<rparr>)
   \<and> (0::int) \<le> 0
   \<and> 2 \<le> int (length (VELOCITY \<lparr>POSITION = [Vec3 0 0 0, Vec3 1 1 1],
                                    VELOCITY = [Vec3 5 0 0, Vec3 0 7 0]\<rparr>))
   \<and> (1::real) = 1
   \<and> updatePICFLIPMarkerParticleVelocitiesThread
        (\<lambda>p. p + Vec3 1 2 3) (\<lambda>p. Vec3 4 4 4) 1 0 2
        \<lparr>POSITION = [Vec3 0 0 0, Vec3 1 1 1], VELOCITY = [Vec3 5 0 0, Vec3 0 7 0]\<rparr>
      = (None, \<lparr>POSITION = [Vec3 0 0 0, Vec3 1 1 1], VELOCITY = [Vec3 1 2 3, Vec3 2 3 4]\<rparr>)"
proof -
  let ?ps = "\<lparr>POSITION = [Vec3 0 0 0, Vec3 1 1 1], VELOCITY = [Vec3 5 0 0, Vec3 0 7 0]\<rparr>"
  let ?M = "\<lambda>p. p + Vec3 1 2 3"
  let ?S = "\<lambda>p::vec3. Vec3 4 4 4"
  have h: "length (POSITION ?ps) = length (VELOCITY ?ps)" "(0::int) \<le> 0"
    "2 \<le> int (length (VELOCITY ?ps))" by simp_all
  from flip_velocity_update[OF h, of ?M ?S 1] obtain vs where vs:
    "updatePICFLIPMarkerParticleVelocitiesThread ?M ?S 1 0 2 ?ps = (None, ?ps\<lparr>VELOCITY := vs\<rparr>)"
    "length vs = 2"
    "\<forall>j < length (VELOCITY ?ps). (0::int) \<le> int j \<and> int j < 2 \<longrightarrow> vs ! j = ?M (POSITION ?ps ! j)"
    by auto
  have "vs ! 0 = Vec3 1 2 3" "vs ! 1 = Vec3 2 3 4"
    using vs(3) by (simp_all add: plus_vec3_def)
  then have "vs = [Vec3 1 2 3, Vec3 2 3 4]"
    using vs(2) by (auto simp: list_eq_iff_nth_eq less_Suc_eq numeral_2_eq_2)
  then show ?thesis using vs(1) h by simp
qed

subsection \<open>Outflow sources\<close>

lemma array3d_set_cells_None:
  "array3d_set_cells gs v a = (None, a') \<Longrightarrow>
     cell a' = (\<lambda>g. if g \<in> set gs then v else cell a g)
     \<and> width a' = width a \<and> height a' = height a \<and> depth a' = depth a"
proof (induction gs arbitrary: a)
  case Nil
  then show ?case by simp
next
  case (Cons g gs)
  then have r: "isIndexInRange a g" by (auto split: if_splits)
  let ?a = "a\<lparr>cell := (cell a)(g := v)\<rparr>"
  have "array3d_set_cells gs v ?a = (None, a')" using Cons(2) r by simp
  from Cons(1)[OF this] show ?case by (auto simp: fun_eq_iff)
qed

lemma array3d_set_cells_in_range:
  "\<forall>g\<in>set gs. isIndexInRange a g \<Longrightarrow> fst (array3d_set_cells gs v a) = None"
proof (induction gs arbitrary: a)
  case Nil
  then show ?case by simp
next
  case (Cons g gs)
  let ?a = "a\<lparr>cell := (cell a)(g := v)\<rparr>"
  have "\<forall>g\<in>set gs. isIndexInRange ?a g" using Cons(2) by (simp add: isIndexInRange_def)
  then show ?case using Cons by simp
qed

lemma remove_by_mask_map:
  "remove_by_mask xs (map P xs) = filter (\<lambda>x. \<not> P x) xs"
  by (induction xs) (simp_all add: remove_by_mask_def)

lemma markOutflowMarkerParticles_Inr:
  "markOutflowMarkerParticles grid source h ps = Inr m \<Longrightarrow>
     m = map (removal_test grid source h) ps"
proof (induction ps arbitrary: m)
  case Nil
  then show ?case by simp
next
  case (Cons p ps)
  then show ?case
    by (auto simp: removal_test_def array3d_get_def Let_def split: sum.splits if_splits)
qed

lemma markOutflowMarkerParticles_total:
  "\<forall>p\<in>set ps. isIndexInRange grid (positionToGridIndex p h) \<Longrightarrow>
     \<exists>m. markOutflowMarkerParticles grid source h ps = Inr m"
proof (induction ps)
  case Nil
  then show ?case by simp
next
  case (Cons p ps)
  then show ?case by (auto simp: array3d_get_def Let_def)
qed


lemma updateOutflow_marker_positions:
  assumes en: "isEnabled source" and fl: "isFluidOutflowEnabled source"
    and res: "updateOutflowMeshFluidSource source s = (None, s')"
  shows "\<exists>grid. markerParticles (world s')
                 = removeParticles (map (removal_test grid source (dx s))
                                       (POSITION (markerParticles (world s))))
                     (markerParticles (world s))
               \<and> cell grid = (\<lambda>g. if isOutflowInversed source then g \<notin> set (getCells source)
                                   else g \<in> set (getCells source))"
proof -
  let ?w = "world s"
  let ?grid0 = "array3d (isize ?w) (jsize ?w) (ksize ?w) False"
  let ?r = "if isOutflowInversed source
            then array3d_set_cells (getCells source) False (array3d_fill True ?grid0)
            else array3d_set_cells (getCells source) True (array3d_fill False ?grid0)"
  obtain e grid where r: "?r = (e, grid)" by (cases ?r) auto
  have e: "e = None"
    using res en fl r by (auto simp: updateOutflowMeshFluidSource_def Let_def split: option.splits)
  have c: "cell grid = (\<lambda>g. if isOutflowInversed source then g \<notin> set (getCells source)
                                   else g \<in> set (getCells source))"
    using r e array3d_set_cells_None[of "getCells source" _ _ grid]
    by (auto simp: array3d_fill_def fun_eq_iff split: if_splits)
  obtain m where m: "markOutflowMarkerParticles grid source (dx s) (POSITION (markerParticles ?w))
                       = Inr m"
    using res en fl r e
    by (auto simp: updateOutflowMeshFluidSource_def Let_def split: sum.splits)
  have m': "m = map (removal_test grid source (dx s)) (POSITION (markerParticles ?w))"
    using m by (rule markOutflowMarkerParticles_Inr)
  have "markerParticles (world s') = removeParticles m (markerParticles ?w)"
    using res en fl r e m
    by (auto simp: updateOutflowMeshFluidSource_def Let_def split: if_splits)
  then show ?thesis using m' c by blast
qed

lemma removal_test_spec:
  assumes "cell grid = (\<lambda>g. if isOutflowInversed source then g \<notin> set (getCells source)
                                   else g \<in> set (getCells source))"
  shows "removal_test grid source h p = spec_in_outflow_region source h p"
  using assms by (simp add: removal_test_def spec_in_outflow_region_def)

text \<open>
  Claim C5. When \<open>_updateOutflowMeshFluidSource\<close> has processed an enabled source with
  fluid outflow and returned, the marker particles that remain are exactly those that were
  not in the region of the source, in their old order: no remaining particle has its cell
  marked as an outflow cell and a negative interpolated level set value, or, for an
  inversed source, a non-negative value in a cell marked as an outflow cell.
\<close>

theorem outflow_removes_region:
  assumes "isEnabled source" and "isFluidOutflowEnabled source"
    and "updateOutflowMeshFluidSource source s = (None, s')"
  shows "POSITION (markerParticles (world s'))
           = filter (\<lambda>p. \<not> spec_in_outflow_region source (dx s) p)
               (POSITION (markerParticles (world s)))
         \<and> (\<forall>p\<in>set (POSITION (markerParticles (world s'))).
               \<not> spec_in_outflow_region source (dx s) p)"
proof -
  obtain grid where g:
    "markerParticles (world s')
       = removeParticles (map (removal_test grid source (dx s))
                             (POSITION (markerParticles (world s))))
           (markerParticles (world s))"
    "cell grid = (\<lambda>g. if isOutflowInversed source then g \<notin> set (getCells source)
                                   else g \<in> set (getCells source))"
    using updateOutflow_marker_positions[OF assms] by blast
  have t: "removal_test grid source (dx s) = spec_in_outflow_region source (dx s)"
    using removal_test_spec[OF g(2)] by (simp add: fun_eq_iff)
  have "POSITION (markerParticles (world s'))
           = filter (\<lambda>p. \<not> spec_in_outflow_region source (dx s) p)
               (POSITION (markerParticles (world s)))"
    unfolding g(1) t by (simp add: removeParticles_def remove_by_mask_map)
  then show ?thesis by simp
qed

text \<open>The function returns normally when the source cells and the particles lie in the grid.\<close>

lemma updateOutflow_returns:
  assumes "\<forall>g\<in>set (getCells source). isGridIndexInRange g (isize (world s)) (jsize (world s))
                                        (ksize (world s))"
    and "\<forall>p\<in>set (POSITION (markerParticles (world s))).
           isGridIndexInRange (positionToGridIndex p (dx s)) (isize (world s)) (jsize (world s))
                                        (ksize (world s))"
  shows "fst (updateOutflowMeshFluidSource source s) = None"
proof -
  let ?w = "world s"
  let ?grid0 = "array3d (isize ?w) (jsize ?w) (ksize ?w) False"
  let ?r = "if isOutflowInversed source
            then array3d_set_cells (getCells source) False (array3d_fill True ?grid0)
            else array3d_set_cells (getCells source) True (array3d_fill False ?grid0)"
  obtain e grid where r: "?r = (e, grid)" by (cases ?r) auto
  have "fst ?r = None"
    using assms(1)
    by (auto intro!: array3d_set_cells_in_range
             simp: isIndexInRange_def array3d_fill_def array3d_def)
  then have e: "e = None" using r by simp
  have dims: "width grid = isize ?w" "height grid = jsize ?w" "depth grid = ksize ?w"
    using r e array3d_set_cells_None[of "getCells source" _ _ grid]
    by (auto simp: array3d_fill_def array3d_def split: if_splits)
  have "\<forall>p\<in>set (POSITION (markerParticles ?w)). isIndexInRange grid (positionToGridIndex p (dx s))"
    using assms(2) dims by (simp add: isIndexInRange_def)
  then obtain m where m: "markOutflowMarkerParticles grid source (dx s)
                            (POSITION (markerParticles ?w)) = Inr m"
    using markOutflowMarkerParticles_total by blast
  show ?thesis
    using r e m by (auto simp: updateOutflowMeshFluidSource_def Let_def)
qed


lemma example_fluid_fields [simp]:
  "dx example_fluid = 1"
  "world example_fluid =
     \<lparr>isize = 2, jsize = 2, ksize = 2,
      markerParticles =
        \<lparr>POSITION = [Vec3 (1 / 4) (1 / 2) (1 / 2), Vec3 (3 / 4) (1 / 2) (1 / 2),
                     Vec3 (3 / 2) (1 / 2) (1 / 2)],
         VELOCITY = [Vec3 1 0 0, Vec3 2 0 0, Vec3 3 0 0]\<rparr>,
      diffuseParticles = \<lparr>POSITION = [], VELOCITY = []\<rparr>\<rparr>"
  by (simp_all add: example_fluid_def example_sim_with_def)

theorem outflow_removes_region_witness:
  "isEnabled example_outflow \<and> isFluidOutflowEnabled example_outflow
   \<and> fst (updateOutflowMeshFluidSource example_outflow example_fluid) = None
   \<and> POSITION (markerParticles (world (snd (updateOutflowMeshFluidSource example_outflow
                                               example_fluid))))
       = [Vec3 (3 / 4) (1 / 2) (1 / 2), Vec3 (3 / 2) (1 / 2) (1 / 2)]"
proof -
  have h: "isEnabled example_outflow" "isFluidOutflowEnabled example_outflow"
    by (simp_all add: example_outflow_def)
  have n: "fst (updateOutflowMeshFluidSource example_outflow example_fluid) = None"
    by (rule updateOutflow_returns)
       (simp_all add: example_outflow_def isGridIndexInRange_def positionToGridIndex_def)
  then have r: "updateOutflowMeshFluidSource example_outflow example_fluid
                  = (None, snd (updateOutflowMeshFluidSource example_outflow example_fluid))"
    by (metis prod.collapse)
  have "POSITION (markerParticles (world (snd (updateOutflowMeshFluidSource example_outflow
                                               example_fluid))))
          = filter (\<lambda>p. \<not> spec_in_outflow_region example_outflow (dx example_fluid) p)
               (POSITION (markerParticles (world example_fluid)))"
    using outflow_removes_region[OF h r] by blast
  also have "\<dots> = [Vec3 (3 / 4) (1 / 2) (1 / 2), Vec3 (3 / 2) (1 / 2) (1 / 2)]"
    by (simp add: spec_in_outflow_region_def example_outflow_def positionToGridIndex_def
                  minus_vec3_def)
  finally show ?thesis using h n by simp
qed

subsection \<open>Particles, the grid and the boundary\<close>







lemma resolveCollision_not_near:
  assumes "isGridIndexInRange (positionToGridIndex newp (dx s))
             (isize (world s)) (jsize (world s)) (ksize (world s))"
    and "array3d_get (nearSolidGrid ctx) (positionToGridIndex oldp (nearSolidGridCellSize ctx))
           = Inr False"
    and "array3d_get (nearSolidGrid ctx) (positionToGridIndex newp (nearSolidGridCellSize ctx))
           = Inr False"
  shows "resolveCollision ctx s oldp newp b = Inr newp"
  using assms by (simp add: resolveCollision_def Let_def)




subsection \<open>The concrete scene\<close>









subsection \<open>Inflow emission and the mask grid\<close>


















































end
